theory Spec2Isabelle
  imports Complex_Main "HOL-Library.Word" "HOL-Library.Sublist"
begin

section \<open>LV2PluginInstance: the plugin host of src/sound/LV2PluginInstance.cpp\<close>

text \<open>
  The development embeds \<^verbatim>\<open>LV2PluginInstance\<close> (src/sound/LV2PluginInstance.cpp):
  its fields become a record, every member function a function from the record to the
  updated record (the constructor and destructor, \<^verbatim>\<open>init\<close>, \<^verbatim>\<open>instantiate\<close>,
  \<^verbatim>\<open>connectPorts\<close>, \<^verbatim>\<open>activate\<close>, \<^verbatim>\<open>deactivate\<close>, \<^verbatim>\<open>cleanup\<close>, \<^verbatim>\<open>silence\<close>,
  \<^verbatim>\<open>discardEvents\<close>, \<^verbatim>\<open>setIdealChannelCount\<close>, \<^verbatim>\<open>setPortValue\<close>, \<^verbatim>\<open>getPortValue\<close>,
  \<^verbatim>\<open>sendEvent\<close>, \<^verbatim>\<open>getLatency\<close> and \<^verbatim>\<open>run\<close>). What the class asks of lilv, ALSA and the plugin itself is either an
  argument of the model (the handle \<^verbatim>\<open>lilv_plugin_instantiate\<close> returns, the MIDI
  decoder, the plugin's process callback) or written to a trace of calls kept in the
  record, so that a theorem can say which calls were issued and in which order.
\<close>

subsection \<open>Time\<close>

text \<open>
  Modelled from the spec: \<^verbatim>\<open>RealTime\<close> (base/RealTime.h is not part of the sources at
  hand) is the absolute time of the spec's EventEnvelope. It is a totally ordered quantity
  with a difference; the model counts nanoseconds in an integer.
\<close>

type_synonym RealTime = int

text \<open>
  Modelled from the spec: \<^verbatim>\<open>RealTime::realTime2Frame\<close> is
  \<^verbatim>\<open>frameOffset = round((eventTime - blockStartTime) * sampleRate)\<close>, the time being in
  seconds there and in nanoseconds here; a negative time gives the negated frame of its
  absolute value.
\<close>

definition realTime2Frame :: "RealTime \<Rightarrow> nat \<Rightarrow> int" where
  "realTime2Frame t sampleRate =
     (if t < 0 then - ((2 * (- t) * int sampleRate + 1000000000) div 2000000000)
      else (2 * t * int sampleRate + 1000000000) div 2000000000)"

text \<open>
  The cast \<^verbatim>\<open>(size_t)\<close> of a \<^verbatim>\<open>long\<close> of 64 bits: a negative value wraps around, any
  other is kept.
\<close>

definition size_t_of_long :: "int \<Rightarrow> nat" where
  "size_t_of_long n = (if n < 0 then nat (n + 18446744073709551616) else nat n)"

subsection \<open>Atom sequences (lv2/atom/util.h)\<close>

type_synonym byte = "8 word"

record LV2_Atom_Event =
  time_frames :: nat
  body_size :: nat
  body_type :: nat
  body_data :: "byte list"

text \<open>
  An \<^verbatim>\<open>LV2_Atom_Sequence\<close> in its buffer: the header's size and type, and what the buffer
  holds behind the header. \<^verbatim>\<open>atom_size\<close> is the \<^verbatim>\<open>uint32_t atom.size\<close>, which the host
  code also writes directly. The buffer holds, from its start, the events \<^verbatim>\<open>seq_events\<close>
  written since the sequence was last cleared, then the events \<^verbatim>\<open>seq_behind\<close> that older
  contents left there, then the zeros of the allocation. How much of that is the sequence
  depends on \<^verbatim>\<open>atom_size\<close> alone.
\<close>

record LV2_Atom_Sequence =
  atom_size :: nat
  atom_type :: nat
  seq_events :: "LV2_Atom_Event list"
  seq_behind :: "LV2_Atom_Event list"

definition ABUFSIZED :: nat where
  "ABUFSIZED = 100000"

text \<open>\<^verbatim>\<open>lv2_atom_pad_size\<close>: round up to a multiple of 8.\<close>

definition lv2_atom_pad_size :: "nat \<Rightarrow> nat" where
  "lv2_atom_pad_size n = ((n + 7) div 8) * 8"

text \<open>
  \<^verbatim>\<open>lv2_atom_sequence_clear\<close>: the size falls back to that of the sequence body header.
  The buffer is not written: the events of the sequence now lie behind its end.
\<close>

definition lv2_atom_sequence_clear :: "LV2_Atom_Sequence \<Rightarrow> LV2_Atom_Sequence" where
  "lv2_atom_sequence_clear s =
     s\<lparr>atom_size := 8, seq_events := [], seq_behind := seq_events s @ seq_behind s\<rparr>"

text \<open>
  What \<^verbatim>\<open>n\<close> bytes written at the end of a sequence leave of the events behind it: the
  events they cover are gone. Where the written bytes end inside an old event, a walk
  from there would not meet the headers of the old events, and none is kept. The instance
  reads behind the end of a sequence only in its atom output ports, to which it appends
  nothing.
\<close>

fun overwritten :: "nat \<Rightarrow> LV2_Atom_Event list \<Rightarrow> LV2_Atom_Event list" where
  "overwritten n [] = []"
| "overwritten n (ev # evs) =
     (if n = 0 then ev # evs
      else if n < 16 + lv2_atom_pad_size (body_size ev) then []
      else overwritten (n - (16 + lv2_atom_pad_size (body_size ev))) evs)"

text \<open>
  \<^verbatim>\<open>lv2_atom_sequence_append_event\<close>: \<^verbatim>\<open>None\<close> is the null pointer it returns when the
  event does not fit. \<^verbatim>\<open>capacity - seq->atom.size\<close> is a subtraction of \<^verbatim>\<open>uint32_t\<close>.
  The event is copied to the end of the sequence, over what lay there.
\<close>

definition lv2_atom_sequence_append_event ::
  "LV2_Atom_Sequence \<Rightarrow> nat \<Rightarrow> LV2_Atom_Event \<Rightarrow> LV2_Atom_Sequence option" where
  "lv2_atom_sequence_append_event s capacity ev =
     (let total_size = 16 + body_size ev in
      if (capacity + 4294967296 - atom_size s) mod 4294967296 < total_size then None
      else Some (s\<lparr>atom_size := atom_size s + lv2_atom_pad_size total_size,
                   seq_events := seq_events s @ [ev],
                   seq_behind := overwritten (lv2_atom_pad_size total_size) (seq_behind s)\<rparr>))"

text \<open>
  \<^verbatim>\<open>LV2_ATOM_SEQUENCE_FOREACH\<close>: the walk starts behind the body header, at byte 8, steps
  from an event to the next by the size of the event header and the padded size of the
  event body, and ends at the first position not below \<^verbatim>\<open>atom.size\<close>. Where the buffer
  holds zeros the walk finds events of body size 0 and type 0, sixteen bytes apart.
\<close>

definition zero_event :: LV2_Atom_Event where
  "zero_event = \<lparr>time_frames = 0, body_size = 0, body_type = 0, body_data = []\<rparr>"

fun atom_sequence_walk :: "nat \<Rightarrow> nat \<Rightarrow> LV2_Atom_Event list \<Rightarrow> LV2_Atom_Event list" where
  "atom_sequence_walk sz pos [] = replicate ((sz - pos + 15) div 16) zero_event"
| "atom_sequence_walk sz pos (ev # evs) =
     (if pos < sz
      then ev # atom_sequence_walk sz (pos + 16 + lv2_atom_pad_size (body_size ev)) evs
      else [])"

definition atom_sequence_events :: "LV2_Atom_Sequence \<Rightarrow> LV2_Atom_Event list" where
  "atom_sequence_events s = atom_sequence_walk (atom_size s) 8 (seq_events s @ seq_behind s)"

record AtomPort =
  index :: nat
  isMidi :: bool
  atomSeq :: LV2_Atom_Sequence

subsection \<open>Trace of calls and messages\<close>

text \<open>
  What the instance does to the outside: the calls into lilv (with the instance pointer
  they are handed, \<^verbatim>\<open>None\<close> for \<^verbatim>\<open>nullptr\<close>), the calls of the plugin's worker interface
  (with the pointer they are handed as the plugin's handle, which is \<^verbatim>\<open>m_instance\<close>),
  the buffers it allocates with \<^verbatim>\<open>new[]\<close> and releases with \<^verbatim>\<open>delete[]\<close>, and the
  messages of \<^verbatim>\<open>RG_DEBUG\<close> and \<^verbatim>\<open>RG_WARNING\<close> in \<^verbatim>\<open>instantiate\<close> and \<^verbatim>\<open>run\<close>.
\<close>

datatype trace_entry =
    Lilv_instantiate nat
  | Lilv_connect_port nat
  | Lilv_state_restore
  | Lilv_activate "nat option"
  | Lilv_deactivate "nat option"
  | Lilv_free "nat option"
  | Lilv_get_extension_data "nat option"
  | Lilv_run "nat option" nat
  | Work_response "nat option" nat "byte list"
  | End_run "nat option"
  | Update_port_value nat LV2_Atom_Event
  | New_samples nat
  | Delete_samples
  | New_atom_buffer nat
  | Delete_atom_buffer
  | Warn_failed_to_instantiate
  | Dbg_send_event RealTime nat "byte list"
  | Dbg_error_decoding
  | Dbg_midi_overflow

subsection \<open>The pending events: \<^verbatim>\<open>m_eventBuffer\<close>\<close>

text \<open>
  \<^verbatim>\<open>m_eventBuffer\<close> is a \<^verbatim>\<open>std::map\<close> from \<^verbatim>\<open>RealTime\<close> to \<^verbatim>\<open>snd_seq_event_t\<close>: the
  code assigns with \<^verbatim>\<open>m_eventBuffer[eventTime] = ...\<close> and walks it from \<^verbatim>\<open>begin()\<close>. The
  model is the list of its entries in iteration order, that is by increasing key.
  \<^verbatim>\<open>map_assign\<close> is \<^verbatim>\<open>operator[]\<close> followed by the assignment.
\<close>

fun map_assign :: "RealTime \<Rightarrow> 'e \<Rightarrow> (RealTime \<times> 'e) list \<Rightarrow> (RealTime \<times> 'e) list" where
  "map_assign t e [] = [(t, e)]"
| "map_assign t e ((t', e') # rest) =
     (if t = t' then (t, e) # rest
      else if t < t' then (t, e) # (t', e') # rest
      else (t', e') # map_assign t e rest)"

text \<open>The invariant of the map: keys strictly increasing.\<close>

definition map_ok :: "(RealTime \<times> 'e) list \<Rightarrow> bool" where
  "map_ok q = sorted_wrt (<) (map fst q)"

subsection \<open>The event loop of \<^verbatim>\<open>run\<close>\<close>

text \<open>
  \<^verbatim>\<open>snd_midi_event_decode(m_midiParser, buf, 100, &qEvent)\<close> belongs to ALSA: the model
  takes it as an argument. It gives the returned count, the bytes written to \<^verbatim>\<open>buf\<close> and
  the parser as the call leaves it.
\<close>

type_synonym ('p, 'e) decoder = "'p \<Rightarrow> 'e \<Rightarrow> int \<times> byte list \<times> 'p"

text \<open>
  The inner loop over \<^verbatim>\<open>m_atomInputPorts\<close>: the event is appended to every MIDI port;
  a port without room keeps its sequence and the overflow is reported.
\<close>

fun append_to_midi_ports ::
  "LV2_Atom_Event \<Rightarrow> AtomPort list \<Rightarrow> AtomPort list \<times> trace_entry list" where
  "append_to_midi_ports ev [] = ([], [])"
| "append_to_midi_ports ev (aip # aips) =
     (let (aips', msgs) = append_to_midi_ports ev aips in
      if isMidi aip then
        (case lv2_atom_sequence_append_event (atomSeq aip) (8 * ABUFSIZED) ev of
           None \<Rightarrow> (aip # aips', Dbg_midi_overflow # msgs)
         | Some s' \<Rightarrow> (aip\<lparr>atomSeq := s'\<rparr> # aips', msgs))
      else (aip # aips', msgs))"

text \<open>
  The \<^verbatim>\<open>while\<close> loop at the head of \<^verbatim>\<open>run\<close>. The iterator starts at \<^verbatim>\<open>begin()\<close> and every
  entry it passes is erased, so the map is at any moment the list from the iterator on; the
  recursion is on that list. The result says first whether the loop left by the \<^verbatim>\<open>return\<close>
  of the decoding error (\<^verbatim>\<open>True\<close>) or went on to the rest of \<^verbatim>\<open>run\<close> (\<^verbatim>\<open>False\<close>: end of
  the map, or \<^verbatim>\<open>break\<close>), then the map, the parser, the atom input ports and the trace.
\<close>

fun run_events ::
  "('p, 'e) decoder \<Rightarrow> nat \<Rightarrow> nat \<Rightarrow> nat \<Rightarrow> RealTime \<Rightarrow>
   (RealTime \<times> 'e) list \<Rightarrow> 'p \<Rightarrow> AtomPort list \<Rightarrow> trace_entry list \<Rightarrow>
   bool \<times> (RealTime \<times> 'e) list \<times> 'p \<times> AtomPort list \<times> trace_entry list" where
  "run_events decode sampleRate blockSize midiEventUrid bufferStart [] parser aips tr =
     (False, [], parser, aips, tr)"
| "run_events decode sampleRate blockSize midiEventUrid bufferStart ((t, qEvent) # rest)
     parser aips tr =
     (let evTime = (if t < bufferStart then bufferStart else t);
          frameOffset = size_t_of_long (realTime2Frame (evTime - bufferStart) sampleRate)
      in
      if frameOffset > blockSize then (False, (t, qEvent) # rest, parser, aips, tr)
      else
        (case decode parser qEvent of (bytes, buf, parser') \<Rightarrow>
           if bytes \<le> 0 then
             (True, (t, qEvent) # rest, parser', aips, tr @ [Dbg_error_decoding])
           else
             (let event = \<lparr>time_frames = frameOffset, body_size = nat bytes,
                           body_type = midiEventUrid, body_data = take (nat bytes) buf\<rparr>;
                  (aips', msgs) = append_to_midi_ports event aips
              in run_events decode sampleRate blockSize midiEventUrid bufferStart rest
                   parser' aips'
                   (tr @ [Dbg_send_event evTime frameOffset (take (nat bytes) buf)] @ msgs))))"

subsection \<open>Plugin data and the instance\<close>

text \<open>
  \<^verbatim>\<open>LV2Utils::LV2PortData\<close> (sound/LV2Utils.h is not part of the sources at hand): the
  fields that LV2PluginInstance.cpp reads. \<^verbatim>\<open>min_port\<close> and \<^verbatim>\<open>max_port\<close> are its
  \<^verbatim>\<open>min\<close> and \<^verbatim>\<open>max\<close>. Samples and control values are \<^verbatim>\<open>float\<close> in the source and
  real numbers here: the rounding of floating point arithmetic is outside the model.
\<close>

datatype LV2PortType = LV2CONTROL | LV2AUDIO | LV2MIDI

datatype LV2PortProtocol = LV2FLOAT | LV2ATOM

record LV2PortData =
  name :: string
  portType :: LV2PortType
  portProtocol :: LV2PortProtocol
  isInput :: bool
  min_port :: real
  max_port :: real

text \<open>\<^verbatim>\<open>LV2_Worker_Interface\<close>: \<^verbatim>\<open>work\<close> and \<^verbatim>\<open>work_response\<close> are there, \<^verbatim>\<open>end_run\<close> may be null.\<close>

record LV2_Worker_Interface =
  has_end_run :: bool

record PluginPosition =
  instrument :: nat
  position :: int

record WorkerJob =
  job_size :: nat
  job_data :: "byte list"

text \<open>
  The fields of the class, then two fields for the world around it: \<^verbatim>\<open>w_trace\<close>, the
  calls issued so far, and \<^verbatim>\<open>w_responses\<close>, the queue of completed jobs that
  \<^verbatim>\<open>LV2Utils::getWorker()\<close> holds. \<^verbatim>\<open>m_instance\<close> is \<^verbatim>\<open>None\<close> for \<^verbatim>\<open>nullptr\<close>;
  \<^verbatim>\<open>m_latencyPort\<close> points into \<^verbatim>\<open>m_controlPortsOut\<close> and is the key of the entry;
  a \<^verbatim>\<open>std::map<int, float>\<close> is a partial function.
\<close>

record ('p, 'e) LV2PluginInstance =
  m_instrument :: nat
  m_position :: int
  m_instance :: "nat option"
  m_pluginData :: "LV2PortData list"
  m_channelCount :: nat
  m_midiParser :: 'p
  m_midiEventUrid :: nat
  m_blockSize :: nat
  m_sampleRate :: nat
  m_latencyPort :: "nat option"
  m_run :: bool
  m_bypassed :: bool
  m_distributeChannels :: bool
  m_audioPortsIn :: "int list"
  m_audioPortsOut :: "int list"
  m_controlPortsIn :: "nat \<rightharpoonup> real"
  m_controlPortsOut :: "nat \<rightharpoonup> real"
  m_atomInputPorts :: "AtomPort list"
  m_atomOutputPorts :: "AtomPort list"
  m_inputBuffers :: "real list list"
  m_outputBuffers :: "real list list"
  m_eventBuffer :: "(RealTime \<times> 'e) list"
  m_workerInterface :: "LV2_Worker_Interface option"
  w_trace :: "trace_entry list"
  w_responses :: "(PluginPosition \<times> WorkerJob) list"

text \<open>
  Modelled from the spec: \<^verbatim>\<open>isOK()\<close> is defined in LV2PluginInstance.h, which is not
  part of the sources at hand. The spec has the instance non-runnable exactly when
  instantiation returned a null handle, so \<^verbatim>\<open>isOK()\<close> is \<^verbatim>\<open>m_instance != nullptr\<close>.
\<close>

definition isOK :: "('p, 'e) LV2PluginInstance \<Rightarrow> bool" where
  "isOK s = (m_instance s \<noteq> None)"

text \<open>
  Modelled from the spec: \<^verbatim>\<open>getAudioInputCount()\<close>, of the same header, is the number of
  entries of \<^verbatim>\<open>m_audioPortsIn\<close>, one per input buffer.
\<close>

definition getAudioInputCount :: "('p, 'e) LV2PluginInstance \<Rightarrow> nat" where
  "getAudioInputCount s = length (m_audioPortsIn s)"

subsection \<open>\<^verbatim>\<open>init\<close>: the ports\<close>

text \<open>
  A fresh atom port: a buffer of \<^verbatim>\<open>ABUFSIZED\<close> doubles, zeroed; the sequence in it is
  cleared, then its type is set and its size is set to that of the whole buffer less the
  atom header.
\<close>

definition new_atom_port :: "nat \<Rightarrow> nat \<Rightarrow> LV2PortData \<Rightarrow> AtomPort" where
  "new_atom_port sequenceUrid i portData =
     \<lparr>index = i, isMidi = (portType portData = LV2MIDI),
      atomSeq = (lv2_atom_sequence_clear
                   \<lparr>atom_size = 0, atom_type = 0, seq_events = [], seq_behind = []\<rparr>)
                  \<lparr>atom_type := sequenceUrid, atom_size := 8 * ABUFSIZED - 8\<rparr>\<rparr>"

text \<open>The body of the loop over \<^verbatim>\<open>m_pluginData.ports\<close>, for port \<^verbatim>\<open>i\<close>.\<close>

definition init_port ::
  "nat \<Rightarrow> nat \<Rightarrow> LV2PortData \<Rightarrow> ('p, 'e) LV2PluginInstance \<Rightarrow> ('p, 'e) LV2PluginInstance" where
  "init_port sequenceUrid i portData s =
     (case portType portData of
        LV2AUDIO \<Rightarrow>
          (if isInput portData then s\<lparr>m_audioPortsIn := m_audioPortsIn s @ [int i]\<rparr>
           else s\<lparr>m_audioPortsOut := m_audioPortsOut s @ [int i]\<rparr>)
      | _ \<Rightarrow>
          (if portProtocol portData = LV2ATOM then
             (if isInput portData then
                s\<lparr>m_atomInputPorts :=
                    m_atomInputPorts s @ [new_atom_port sequenceUrid i portData],
                  w_trace := w_trace s @ [New_atom_buffer ABUFSIZED]\<rparr>
              else
                s\<lparr>m_atomOutputPorts :=
                    m_atomOutputPorts s @ [new_atom_port sequenceUrid i portData],
                  w_trace := w_trace s @ [New_atom_buffer ABUFSIZED]\<rparr>)
           else
             (if isInput portData then
                s\<lparr>m_controlPortsIn := (m_controlPortsIn s)(i \<mapsto> 0)\<rparr>
              else
                (let s' = s\<lparr>m_controlPortsOut := (m_controlPortsOut s)(i \<mapsto> 0)\<rparr> in
                 if name portData = ''latency'' \<or> name portData = ''_latency''
                 then s'\<lparr>m_latencyPort := Some i\<rparr> else s'))))"

fun init_ports ::
  "nat \<Rightarrow> nat \<Rightarrow> LV2PortData list \<Rightarrow> ('p, 'e) LV2PluginInstance \<Rightarrow> ('p, 'e) LV2PluginInstance" where
  "init_ports sequenceUrid i [] s = s"
| "init_ports sequenceUrid i (portData # ports) s =
     init_ports sequenceUrid (Suc i) ports (init_port sequenceUrid i portData s)"

definition init ::
  "nat \<Rightarrow> nat \<Rightarrow> ('p, 'e) LV2PluginInstance \<Rightarrow> ('p, 'e) LV2PluginInstance" where
  "init sequenceUrid idealChannelCount s =
     (let s1 = init_ports sequenceUrid 0 (m_pluginData s)
                 (s\<lparr>m_channelCount := idealChannelCount\<rparr>);
          s2 = s1\<lparr>m_distributeChannels := False\<rparr>
      in
      if length (m_audioPortsIn s2) = 1 \<and> length (m_audioPortsOut s2) = 1 \<and>
         m_channelCount s2 = 2
      then s2\<lparr>m_audioPortsIn := m_audioPortsIn s2 @ [- 1],
               m_audioPortsOut := m_audioPortsOut s2 @ [- 1],
               m_distributeChannels := True\<rparr>
      else s2)"

subsection \<open>Control ports\<close>

definition setPortValue ::
  "nat \<Rightarrow> real \<Rightarrow> ('p, 'e) LV2PluginInstance \<Rightarrow> ('p, 'e) LV2PluginInstance" where
  "setPortValue portNumber v s =
     (case m_controlPortsIn s portNumber of
        None \<Rightarrow> s
      | Some _ \<Rightarrow>
          (let v1 = (if v < min_port (m_pluginData s ! portNumber)
                     then min_port (m_pluginData s ! portNumber) else v);
               v2 = (if v1 > max_port (m_pluginData s ! portNumber)
                     then max_port (m_pluginData s ! portNumber) else v1)
           in s\<lparr>m_controlPortsIn := (m_controlPortsIn s)(portNumber \<mapsto> v2)\<rparr>))"

definition getPortValue :: "nat \<Rightarrow> ('p, 'e) LV2PluginInstance \<Rightarrow> real" where
  "getPortValue portNumber s =
     (case m_controlPortsIn s portNumber of None \<Rightarrow> 0 | Some v \<Rightarrow> v)"

subsection \<open>Life cycle\<close>

text \<open>
  \<^verbatim>\<open>instantiate\<close>: \<^verbatim>\<open>h\<close> is what \<^verbatim>\<open>lilv_plugin_instantiate\<close> returns. The feature and
  option tables the function fills beforehand are not part of the model.
\<close>

definition instantiate ::
  "nat option \<Rightarrow> nat \<Rightarrow> ('p, 'e) LV2PluginInstance \<Rightarrow> ('p, 'e) LV2PluginInstance" where
  "instantiate h sampleRate s =
     (let s' = s\<lparr>m_instance := h, w_trace := w_trace s @ [Lilv_instantiate sampleRate]\<rparr> in
      if m_instance s' = None
      then s'\<lparr>w_trace := w_trace s' @ [Warn_failed_to_instantiate]\<rparr>
      else s')"

definition activate :: "('p, 'e) LV2PluginInstance \<Rightarrow> ('p, 'e) LV2PluginInstance" where
  "activate s = s\<lparr>w_trace := w_trace s @ [Lilv_activate (m_instance s)]\<rparr>"

definition deactivate :: "('p, 'e) LV2PluginInstance \<Rightarrow> ('p, 'e) LV2PluginInstance" where
  "deactivate s = s\<lparr>w_trace := w_trace s @ [Lilv_deactivate (m_instance s)]\<rparr>"

text \<open>\<^verbatim>\<open>cleanup\<close> frees the lilv instance and leaves every field, \<^verbatim>\<open>m_instance\<close> too, as it is.\<close>

definition cleanup :: "('p, 'e) LV2PluginInstance \<Rightarrow> ('p, 'e) LV2PluginInstance" where
  "cleanup s = s\<lparr>w_trace := w_trace s @ [Lilv_free (m_instance s)]\<rparr>"

text \<open>
  \<^verbatim>\<open>connectPorts\<close>: the audio ports other than the \<^verbatim>\<open>-1\<close> placeholders, the control
  ports by increasing key (the order of the \<^verbatim>\<open>std::map\<close>), the atom ports; then
  \<^verbatim>\<open>lilv_state_restore\<close>, which calls back \<^verbatim>\<open>setPortValue\<close> for the port values of the
  plugin's default state: \<^verbatim>\<open>defaultState\<close> lists them as port number and value.
\<close>

definition map_keys :: "nat \<Rightarrow> (nat \<rightharpoonup> real) \<Rightarrow> nat list" where
  "map_keys n m = filter (\<lambda>i. m i \<noteq> None) [0..<n]"

fun restore_state ::
  "(nat \<times> real) list \<Rightarrow> ('p, 'e) LV2PluginInstance \<Rightarrow> ('p, 'e) LV2PluginInstance" where
  "restore_state [] s = s"
| "restore_state ((portNumber, v) # rest) s = restore_state rest (setPortValue portNumber v s)"

definition connect_calls :: "('p, 'e) LV2PluginInstance \<Rightarrow> trace_entry list" where
  "connect_calls s =
     (let n = length (m_pluginData s) in
      map (\<lambda>p. Lilv_connect_port (nat p)) (filter (\<lambda>p. p \<noteq> - 1) (m_audioPortsIn s)) @
      map (\<lambda>p. Lilv_connect_port (nat p)) (filter (\<lambda>p. p \<noteq> - 1) (m_audioPortsOut s)) @
      map Lilv_connect_port (map_keys n (m_controlPortsIn s)) @
      map Lilv_connect_port (map_keys n (m_controlPortsOut s)) @
      map (\<lambda>aip. Lilv_connect_port (index aip)) (m_atomInputPorts s) @
      map (\<lambda>aop. Lilv_connect_port (index aop)) (m_atomOutputPorts s))"

definition connectPorts ::
  "(nat \<times> real) list \<Rightarrow> ('p, 'e) LV2PluginInstance \<Rightarrow> ('p, 'e) LV2PluginInstance" where
  "connectPorts defaultState s =
     restore_state defaultState
       (s\<lparr>w_trace := w_trace s @ connect_calls s @ [Lilv_state_restore]\<rparr>)"

text \<open>
  The constructor. \<^verbatim>\<open>h\<close> is the handle that instantiation returns, \<^verbatim>\<open>ext\<close> the worker
  interface that \<^verbatim>\<open>lilv_instance_get_extension_data\<close> returns; that call is handed
  \<^verbatim>\<open>m_instance\<close> whether or not it is null, and the trace shows it. The registration with
  \<^verbatim>\<open>LV2Utils\<close> is not part of the model.
\<close>

definition LV2PluginInstance_new ::
  "LV2PortData list \<Rightarrow> nat \<Rightarrow> int \<Rightarrow> nat \<Rightarrow> nat \<Rightarrow> nat \<Rightarrow> nat \<Rightarrow> nat \<Rightarrow> 'p \<Rightarrow>
   nat option \<Rightarrow> (nat \<times> real) list \<Rightarrow> LV2_Worker_Interface option \<Rightarrow>
   ('p, 'e) LV2PluginInstance" where
  "LV2PluginInstance_new pluginData instr pos sampleRate blockSize idealChannelCount
     sequenceUrid midiEventUrid parser h defaultState ext =
     (let s0 = \<lparr>m_instrument = instr, m_position = pos, m_instance = None,
                m_pluginData = pluginData, m_channelCount = 0, m_midiParser = parser,
                m_midiEventUrid = midiEventUrid, m_blockSize = blockSize,
                m_sampleRate = sampleRate, m_latencyPort = None, m_run = False,
                m_bypassed = False, m_distributeChannels = False,
                m_audioPortsIn = [], m_audioPortsOut = [],
                m_controlPortsIn = Map.empty, m_controlPortsOut = Map.empty,
                m_atomInputPorts = [], m_atomOutputPorts = [],
                m_inputBuffers = [], m_outputBuffers = [], m_eventBuffer = [],
                m_workerInterface = None, w_trace = [], w_responses = []\<rparr>;
          s1 = init sequenceUrid idealChannelCount s0;
          s2 = s1\<lparr>m_inputBuffers := replicate (length (m_audioPortsIn s1)) (replicate blockSize 0),
                  m_outputBuffers := replicate (length (m_audioPortsOut s1)) (replicate blockSize 0),
                  w_trace := w_trace s1 @
                    replicate (length (m_audioPortsIn s1)) (New_samples blockSize) @
                    replicate (length (m_audioPortsOut s1)) (New_samples blockSize)\<rparr>;
          s3 = instantiate h sampleRate s2;
          s4 = (if isOK s3 then activate (connectPorts defaultState s3) else s3)
      in s4\<lparr>m_workerInterface := ext,
             w_trace := w_trace s4 @ [Lilv_get_extension_data (m_instance s4)]\<rparr>)"

text \<open>
  The destructor: the instance is deactivated if there is one and freed, then the sample
  buffers and the atom buffers are released. It is the only code of the class that
  releases them.
\<close>

definition LV2PluginInstance_delete ::
  "('p, 'e) LV2PluginInstance \<Rightarrow> ('p, 'e) LV2PluginInstance" where
  "LV2PluginInstance_delete s =
     (let s1 = (if m_instance s \<noteq> None then deactivate s else s);
          s2 = cleanup s1
      in s2\<lparr>m_controlPortsIn := Map.empty, m_controlPortsOut := Map.empty,
             m_inputBuffers := [], m_outputBuffers := [],
             m_audioPortsIn := [], m_audioPortsOut := [],
             m_atomInputPorts := [], m_atomOutputPorts := [],
             w_trace := w_trace s2 @
               replicate (length (m_audioPortsIn s2)) Delete_samples @
               replicate (length (m_audioPortsOut s2)) Delete_samples @
               replicate (length (m_atomInputPorts s2)) Delete_atom_buffer @
               replicate (length (m_atomOutputPorts s2)) Delete_atom_buffer\<rparr>)"

definition silence :: "('p, 'e) LV2PluginInstance \<Rightarrow> ('p, 'e) LV2PluginInstance" where
  "silence s = (if isOK s then activate (deactivate s) else s)"

definition discardEvents :: "('p, 'e) LV2PluginInstance \<Rightarrow> ('p, 'e) LV2PluginInstance" where
  "discardEvents s = s\<lparr>m_eventBuffer := []\<rparr>"

definition sendEvent ::
  "RealTime \<Rightarrow> 'e \<Rightarrow> ('p, 'e) LV2PluginInstance \<Rightarrow> ('p, 'e) LV2PluginInstance" where
  "sendEvent eventTime seqEvent s =
     s\<lparr>m_eventBuffer := map_assign eventTime seqEvent (m_eventBuffer s)\<rparr>"

definition setIdealChannelCount ::
  "nat option \<Rightarrow> (nat \<times> real) list \<Rightarrow> nat \<Rightarrow>
   ('p, 'e) LV2PluginInstance \<Rightarrow> ('p, 'e) LV2PluginInstance" where
  "setIdealChannelCount h defaultState channels s =
     (if channels = m_channelCount s then s
      else
        (let s1 = (if isOK s then deactivate s else s);
             s2 = cleanup s1;
             s3 = instantiate h (m_sampleRate s2) s2
         in if isOK s3 then activate (connectPorts defaultState s3) else s3))"

subsection \<open>\<^verbatim>\<open>run\<close>\<close>

text \<open>
  What the plugin reaches through the ports that \<^verbatim>\<open>connectPorts\<close> bound: the first input
  and output buffers (one for each audio port that is not a \<^verbatim>\<open>-1\<close> placeholder), the
  control values and the atom sequences. The plugin's process callback is an argument of
  \<^verbatim>\<open>run\<close>: from the number of frames and the contents of the ports to their contents
  after the call.
\<close>

record plugin_io =
  io_audioIn :: "real list list"
  io_audioOut :: "real list list"
  io_controlIn :: "nat \<rightharpoonup> real"
  io_controlOut :: "nat \<rightharpoonup> real"
  io_atomIn :: "LV2_Atom_Sequence list"
  io_atomOut :: "LV2_Atom_Sequence list"

type_synonym process_callback = "nat \<Rightarrow> plugin_io \<Rightarrow> plugin_io"

definition connected :: "int list \<Rightarrow> nat" where
  "connected audioPorts = length (filter (\<lambda>p. p \<noteq> - 1) audioPorts)"

definition plugin_view :: "('p, 'e) LV2PluginInstance \<Rightarrow> plugin_io" where
  "plugin_view s =
     \<lparr>io_audioIn = take (connected (m_audioPortsIn s)) (m_inputBuffers s),
      io_audioOut = take (connected (m_audioPortsOut s)) (m_outputBuffers s),
      io_controlIn = m_controlPortsIn s,
      io_controlOut = m_controlPortsOut s,
      io_atomIn = map atomSeq (m_atomInputPorts s),
      io_atomOut = map atomSeq (m_atomOutputPorts s)\<rparr>"

text \<open>
  \<^verbatim>\<open>lilv_instance_run(m_instance, m_blockSize)\<close>: the call is traced with the pointer it
  is handed. With an instance the plugin's outputs are written where the ports are bound;
  with \<^verbatim>\<open>nullptr\<close> there is no plugin to run and the model leaves the buffers alone.
\<close>

definition lilv_instance_run ::
  "process_callback \<Rightarrow> ('p, 'e) LV2PluginInstance \<Rightarrow> ('p, 'e) LV2PluginInstance" where
  "lilv_instance_run process s =
     (let s' = s\<lparr>w_trace := w_trace s @ [Lilv_run (m_instance s) (m_blockSize s)]\<rparr> in
      case m_instance s of
        None \<Rightarrow> s'
      | Some _ \<Rightarrow>
          (let io = process (m_blockSize s) (plugin_view s) in
           s'\<lparr>m_outputBuffers :=
                 io_audioOut io @ drop (connected (m_audioPortsOut s)) (m_outputBuffers s),
               m_controlPortsOut := io_controlOut io,
               m_atomOutputPorts :=
                 map (\<lambda>(aop, sq). aop\<lparr>atomSeq := sq\<rparr>)
                   (zip (m_atomOutputPorts s) (io_atomOut io))\<rparr>))"

text \<open>The two loops of the channel adaptation, frame by frame.\<close>

function mix_inputs :: "nat \<Rightarrow> nat \<Rightarrow> real list list \<Rightarrow> real list list" where
  "mix_inputs i blockSize bufs =
     (if i < blockSize
      then mix_inputs (Suc i) blockSize
             (bufs[0 := (bufs ! 0)[i := (bufs ! 0 ! i + bufs ! 1 ! i) / 2]])
      else bufs)"
  by pat_completeness auto
termination
  by (relation "measure (\<lambda>(i, blockSize, bufs). blockSize - i)") auto

declare mix_inputs.simps [simp del]

function distribute_outputs :: "nat \<Rightarrow> nat \<Rightarrow> real list list \<Rightarrow> real list list" where
  "distribute_outputs i blockSize bufs =
     (if i < blockSize
      then distribute_outputs (Suc i) blockSize (bufs[1 := (bufs ! 1)[i := bufs ! 0 ! i]])
      else bufs)"
  by pat_completeness auto
termination
  by (relation "measure (\<lambda>(i, blockSize, bufs). blockSize - i)") auto

declare distribute_outputs.simps [simp del]

text \<open>
  Modelled from the spec: \<^verbatim>\<open>LV2Utils::Worker::getResponse\<close> (not part of the sources at
  hand) polls the queue of completed jobs, each entry tagged with the identity of its
  instance: it takes out the first job of the given instance, or returns null.
\<close>

fun getResponse ::
  "PluginPosition \<Rightarrow> (PluginPosition \<times> WorkerJob) list \<Rightarrow>
   WorkerJob option \<times> (PluginPosition \<times> WorkerJob) list" where
  "getResponse pp [] = (None, [])"
| "getResponse pp ((k, job) # rest) =
     (if k = pp then (Some job, rest)
      else (let (r, rest') = getResponse pp rest in (r, (k, job) # rest')))"

text \<open>
  The loop \<^verbatim>\<open>while (job = worker->getResponse(pp)) work_response(m_instance, ...)\<close>;
  \<^verbatim>\<open>inst\<close> is \<^verbatim>\<open>m_instance\<close>.
\<close>

function worker_responses ::
  "nat option \<Rightarrow> PluginPosition \<Rightarrow> (PluginPosition \<times> WorkerJob) list \<Rightarrow>
   trace_entry list \<Rightarrow> (PluginPosition \<times> WorkerJob) list \<times> trace_entry list" where
  "worker_responses inst pp rs tr =
     (case getResponse pp rs of
        (None, rs') \<Rightarrow> (rs', tr)
      | (Some job, rs') \<Rightarrow>
          worker_responses inst pp rs'
            (tr @ [Work_response inst (job_size job) (job_data job)]))"
  by pat_completeness auto
termination
proof (relation "measure (\<lambda>(inst, pp, rs, tr). length rs)", goal_cases)
  case 1
  show ?case by simp
next
  case (2 inst pp rs tr r rs' job)
  then have "getResponse pp rs = (Some job, rs')"
    by simp
  then have "length rs' < length rs"
    by (induction rs arbitrary: rs') (auto split: if_splits prod.splits)
  then show ?case
    by simp
qed

declare worker_responses.simps [simp del]

text \<open>
  The atom output ports after the plugin has run: the events of each sequence are walked,
  as far as \<^verbatim>\<open>atom.size\<close> reaches, and every one that is not MIDI is passed to
  \<^verbatim>\<open>updatePortValue\<close>; then the sequence is cleared.
\<close>

fun atom_out_data :: "nat \<Rightarrow> AtomPort list \<Rightarrow> AtomPort list \<times> trace_entry list" where
  "atom_out_data midiEventUrid [] = ([], [])"
| "atom_out_data midiEventUrid (ap # aps) =
     (let updates = map (Update_port_value (index ap))
                      (filter (\<lambda>ev. body_type ev \<noteq> midiEventUrid)
                         (atom_sequence_events (atomSeq ap)));
          (aps', rest) = atom_out_data midiEventUrid aps
      in (ap\<lparr>atomSeq := lv2_atom_sequence_clear (atomSeq ap)\<rparr> # aps', updates @ rest))"

text \<open>
  \<^verbatim>\<open>run\<close> in three parts. \<^verbatim>\<open>run_before\<close> is the code up to the plugin's process callback:
  the event loop, where a decoding error unlocks and returns (the first component of the
  result is then \<^verbatim>\<open>True\<close>), the mix of the two input channels and the reset of the atom
  output sizes. \<^verbatim>\<open>run_after\<close> is the code that follows the callback, block after block.
  The lock of \<^verbatim>\<open>LV2Utils\<close>, taken on entry and released on both exits, is not part of
  the model.
\<close>

definition run_before ::
  "('p, 'e) decoder \<Rightarrow> RealTime \<Rightarrow> ('p, 'e) LV2PluginInstance \<Rightarrow>
   bool \<times> ('p, 'e) LV2PluginInstance" where
  "run_before decode rt s =
     (let bufferStart = rt in
      case run_events decode (m_sampleRate s) (m_blockSize s) (m_midiEventUrid s) bufferStart
             (m_eventBuffer s) (m_midiParser s) (m_atomInputPorts s) (w_trace s) of
        (returned, q, parser, aips, tr) \<Rightarrow>
          (let s1 = s\<lparr>m_eventBuffer := q, m_midiParser := parser,
                      m_atomInputPorts := aips, w_trace := tr\<rparr> in
           if returned then (True, s1)
           else
             (let s2 = (if m_distributeChannels s1
                        then s1\<lparr>m_inputBuffers :=
                                  mix_inputs 0 (m_blockSize s1) (m_inputBuffers s1)\<rparr>
                        else s1)
              in (False,
                  s2\<lparr>m_atomOutputPorts :=
                       map (\<lambda>ap. ap\<lparr>atomSeq := (atomSeq ap)\<lparr>atom_size := 8 * ABUFSIZED - 8\<rparr>\<rparr>)
                         (m_atomOutputPorts s2)\<rparr>))))"

text \<open>The block under \<^verbatim>\<open>// get any worker responses\<close>.\<close>

definition run_worker_responses ::
  "('p, 'e) LV2PluginInstance \<Rightarrow> ('p, 'e) LV2PluginInstance" where
  "run_worker_responses s =
     (let pp = \<lparr>instrument = m_instrument s, position = m_position s\<rparr> in
      case m_workerInterface s of
        None \<Rightarrow> s
      | Some wi \<Rightarrow>
          (case worker_responses (m_instance s) pp (w_responses s) (w_trace s) of
             (rs, tr) \<Rightarrow>
               s\<lparr>w_responses := rs,
                 w_trace :=
                   (if has_end_run wi then tr @ [End_run (m_instance s)] else tr)\<rparr>))"

text \<open>The loop under \<^verbatim>\<open>// clear atom in buffers\<close>.\<close>

definition run_clear_atom_in ::
  "('p, 'e) LV2PluginInstance \<Rightarrow> ('p, 'e) LV2PluginInstance" where
  "run_clear_atom_in s =
     s\<lparr>m_atomInputPorts :=
         map (\<lambda>ap. ap\<lparr>atomSeq := lv2_atom_sequence_clear (atomSeq ap)\<rparr>) (m_atomInputPorts s)\<rparr>"

text \<open>The loop under \<^verbatim>\<open>// get atom out data\<close>.\<close>

definition run_atom_out ::
  "('p, 'e) LV2PluginInstance \<Rightarrow> ('p, 'e) LV2PluginInstance" where
  "run_atom_out s =
     (case atom_out_data (m_midiEventUrid s) (m_atomOutputPorts s) of
        (aops, updates) \<Rightarrow> s\<lparr>m_atomOutputPorts := aops, w_trace := w_trace s @ updates\<rparr>)"

text \<open>The copy of the plugin's output to the second channel.\<close>

definition run_distribute ::
  "('p, 'e) LV2PluginInstance \<Rightarrow> ('p, 'e) LV2PluginInstance" where
  "run_distribute s =
     (if m_distributeChannels s
      then s\<lparr>m_outputBuffers := distribute_outputs 0 (m_blockSize s) (m_outputBuffers s)\<rparr>
      else s)"

definition run_after :: "('p, 'e) LV2PluginInstance \<Rightarrow> ('p, 'e) LV2PluginInstance" where
  "run_after s =
     (run_distribute (run_atom_out (run_clear_atom_in (run_worker_responses s))))
       \<lparr>m_run := True\<rparr>"

definition run ::
  "('p, 'e) decoder \<Rightarrow> process_callback \<Rightarrow> RealTime \<Rightarrow>
   ('p, 'e) LV2PluginInstance \<Rightarrow> ('p, 'e) LV2PluginInstance" where
  "run decode process rt s =
     (case run_before decode rt s of
        (returned, s1) \<Rightarrow>
          if returned then s1 else run_after (lilv_instance_run process s1))"

text \<open>
  \<^verbatim>\<open>getLatency\<close>: with a latency port and no block run so far, the input buffers are
  zeroed and one block is run at \<^verbatim>\<open>RealTime::zero()\<close>. The result is the value of the
  latency port, converted to \<^verbatim>\<open>size_t\<close>.
\<close>

definition getLatency ::
  "('p, 'e) decoder \<Rightarrow> process_callback \<Rightarrow> ('p, 'e) LV2PluginInstance \<Rightarrow>
   nat \<times> ('p, 'e) LV2PluginInstance" where
  "getLatency decode process s =
     (case m_latencyPort s of
        None \<Rightarrow> (0, s)
      | Some k \<Rightarrow>
          (let s' = (if \<not> m_run s
                     then run decode process 0
                            (s\<lparr>m_inputBuffers :=
                                 map (\<lambda>b. replicate (min (m_blockSize s) (length b)) 0 @
                                           drop (m_blockSize s) b)
                                   (take (getAudioInputCount s) (m_inputBuffers s)) @
                                 drop (getAudioInputCount s) (m_inputBuffers s)\<rparr>)
                     else s)
           in (case m_controlPortsOut s' k of None \<Rightarrow> 0 | Some v \<Rightarrow> nat \<lfloor>v\<rfloor>, s')))"

subsection \<open>Notions for the statements\<close>

text \<open>
  Whether \<^verbatim>\<open>run\<close> leaves by the \<^verbatim>\<open>return\<close> of the event loop, and the instance as
  \<^verbatim>\<open>run\<close> has it at the point of the plugin's process callback (when \<^verbatim>\<open>run\<close> returns
  from the loop: as it has it on that return).
\<close>

definition run_returns_early ::
  "('p, 'e) decoder \<Rightarrow> RealTime \<Rightarrow> ('p, 'e) LV2PluginInstance \<Rightarrow> bool" where
  "run_returns_early decode rt s = fst (run_before decode rt s)"

definition run_at_process ::
  "('p, 'e) decoder \<Rightarrow> RealTime \<Rightarrow> ('p, 'e) LV2PluginInstance \<Rightarrow>
   ('p, 'e) LV2PluginInstance" where
  "run_at_process decode rt s = snd (run_before decode rt s)"

text \<open>
  The frame offset that the event loop computes for an event of time \<^verbatim>\<open>t\<close> in the block
  that starts at \<^verbatim>\<open>bufferStart\<close>: the two lines of the loop that clamp the time and
  convert the difference.
\<close>

definition frame_offset :: "RealTime \<Rightarrow> nat \<Rightarrow> RealTime \<Rightarrow> nat" where
  "frame_offset bufferStart sampleRate t =
     size_t_of_long
       (realTime2Frame ((if t < bufferStart then bufferStart else t) - bufferStart) sampleRate)"

text \<open>
  An atom port \<^verbatim>\<open>new\<close> is the port \<^verbatim>\<open>old\<close> with the events \<^verbatim>\<open>ys\<close> appended to its
  sequence.
\<close>

definition appended_by ::
  "LV2_Atom_Event list \<Rightarrow> AtomPort \<Rightarrow> AtomPort \<Rightarrow> bool" where
  "appended_by ys old new \<longleftrightarrow>
     index new = index old \<and> isMidi new = isMidi old \<and>
     seq_events (atomSeq new) = seq_events (atomSeq old) @ ys"

text \<open>
  The ports that \<^verbatim>\<open>init\<close> makes control inputs: of type control or MIDI, not of the
  atom protocol, and inputs.
\<close>

definition is_control_in :: "LV2PortData \<Rightarrow> bool" where
  "is_control_in pd \<longleftrightarrow>
     portType pd \<noteq> LV2AUDIO \<and> portProtocol pd \<noteq> LV2ATOM \<and> isInput pd"


subsection \<open>Sequences of calls\<close>

text \<open>Several \<^verbatim>\<open>sendEvent\<close> calls in a row, first to last.\<close>

fun sendEvents ::
  "(RealTime \<times> 'e) list \<Rightarrow> ('p, 'e) LV2PluginInstance \<Rightarrow> ('p, 'e) LV2PluginInstance" where
  "sendEvents [] s = s"
| "sendEvents ((t, e) # rest) s = sendEvents rest (sendEvent t e s)"

subsection \<open>An example plugin\<close>

text \<open>
  The concrete inputs of the theorems below. \<^verbatim>\<open>raw_decode\<close> stands for ALSA's decoder on
  events that are their own MIDI bytes: an event without bytes fails to decode (the
  decoder then returns a negative error code), any other gives its bytes.
  \<^verbatim>\<open>example_ports\<close> is a mono effect with a MIDI input, a gain in the range 0 to 1 and a
  latency output; \<^verbatim>\<open>copy_through\<close> is a process callback that copies its audio inputs to
  its outputs.
\<close>

definition raw_decode :: "(unit, byte list) decoder" where
  "raw_decode parser ev = (if ev = [] then (- 2, [], parser) else (int (length ev), ev, parser))"

definition example_ports :: "LV2PortData list" where
  "example_ports =
     [\<lparr>name = ''in'', portType = LV2AUDIO, portProtocol = LV2FLOAT, isInput = True,
       min_port = 0, max_port = 0\<rparr>,
      \<lparr>name = ''out'', portType = LV2AUDIO, portProtocol = LV2FLOAT, isInput = False,
       min_port = 0, max_port = 0\<rparr>,
      \<lparr>name = ''midi'', portType = LV2MIDI, portProtocol = LV2ATOM, isInput = True,
       min_port = 0, max_port = 0\<rparr>,
      \<lparr>name = ''gain'', portType = LV2CONTROL, portProtocol = LV2FLOAT, isInput = True,
       min_port = 0, max_port = 1\<rparr>,
      \<lparr>name = ''latency'', portType = LV2CONTROL, portProtocol = LV2FLOAT, isInput = False,
       min_port = 0, max_port = 0\<rparr>]"

definition copy_through :: process_callback where
  "copy_through n io = io\<lparr>io_audioOut := io_audioIn io\<rparr>"

text \<open>
  The example plugin on a stereo bus, at 32000 frames a second in blocks of \<^verbatim>\<open>blockSize\<close>
  frames; \<^verbatim>\<open>h\<close> is the handle that instantiation returns and \<^verbatim>\<open>ext\<close> the worker
  interface of the plugin. \<^verbatim>\<open>example_running\<close> is the instance after a first block, run
  at time 0 with no event pending.
\<close>

definition example_instance ::
  "nat \<Rightarrow> nat option \<Rightarrow> LV2_Worker_Interface option \<Rightarrow>
   (unit, byte list) LV2PluginInstance" where
  "example_instance blockSize h ext =
     LV2PluginInstance_new example_ports 1 0 32000 blockSize 2 7 9 () h [] ext"

definition example_running ::
  "nat \<Rightarrow> LV2_Worker_Interface option \<Rightarrow> (unit, byte list) LV2PluginInstance" where
  "example_running blockSize ext =
     run raw_decode copy_through 0 (example_instance blockSize (Some 1) ext)"

text \<open>
  The running example with three events pending: one at time 0, one after a millisecond,
  one after three milliseconds (times in nanoseconds).
\<close>

definition example_pending :: "(unit, byte list) LV2PluginInstance" where
  "example_pending =
     sendEvents [(1000000, [0x90, 60, 100]), (0, [0x90, 62, 100]), (3000000, [0x80, 60, 0])]
       (example_running 64 None)"

text \<open>
  The running example with a worker interface that has an \<^verbatim>\<open>end_run\<close> hook, and three
  completed jobs in the worker's queue: two of this instance (instrument 1, position 0),
  one of another.
\<close>

definition example_worker :: "(unit, byte list) LV2PluginInstance" where
  "example_worker =
     (example_running 64 (Some \<lparr>has_end_run = True\<rparr>))
       \<lparr>w_responses :=
          [(\<lparr>instrument = 1, position = 0\<rparr>, \<lparr>job_size = 1, job_data = [7]\<rparr>),
           (\<lparr>instrument = 2, position = 0\<rparr>, \<lparr>job_size = 1, job_data = [8]\<rparr>),
           (\<lparr>instrument = 1, position = 0\<rparr>, \<lparr>job_size = 2, job_data = [9, 10]\<rparr>)]\<rparr>"


text \<open>
  The running example in blocks of two frames, the host having written the left channel
  1, 3 and the right channel 3, 5 to the input buffers.
\<close>

definition example_stereo_input :: "(unit, byte list) LV2PluginInstance" where
  "example_stereo_input = (example_running 2 None)\<lparr>m_inputBuffers := [[1, 3], [3, 5]]\<rparr>"


section \<open>The example instance, explicitly\<close>

lemma upt_5: "[0..<5] = [0, 1, 2, 3, 4]"
  by (simp add: upt_rec)

lemma Suc_numerals: "Suc (Suc (Suc 0)) = 3" "Suc (Suc (Suc (Suc 0))) = 4"
  by simp_all

lemma example_instance_Some:
  "example_instance n (Some k) ext =
     \<lparr>m_instrument = 1, m_position = 0, m_instance = Some k,
      m_pluginData = example_ports,
      m_channelCount = 2, m_midiParser = (), m_midiEventUrid = 9,
      m_blockSize = n, m_sampleRate = 32000, m_latencyPort = Some 4,
      m_run = False, m_bypassed = False, m_distributeChannels = True,
      m_audioPortsIn = [0, - 1], m_audioPortsOut = [1, - 1],
      m_controlPortsIn = [3 \<mapsto> 0], m_controlPortsOut = [4 \<mapsto> 0],
      m_atomInputPorts =
        [\<lparr>index = 2, isMidi = True,
          atomSeq = \<lparr>atom_size = 799992, atom_type = 7, seq_events = [],
                     seq_behind = []\<rparr>\<rparr>],
      m_atomOutputPorts = [],
      m_inputBuffers = [replicate n 0, replicate n 0],
      m_outputBuffers = [replicate n 0, replicate n 0], m_eventBuffer = [],
      m_workerInterface = ext,
      w_trace =
        [New_atom_buffer 100000, New_samples n, New_samples n, New_samples n,
         New_samples n, Lilv_instantiate 32000, Lilv_connect_port 0,
         Lilv_connect_port 1, Lilv_connect_port 3, Lilv_connect_port 4,
         Lilv_connect_port 2, Lilv_state_restore, Lilv_activate (Some k),
         Lilv_get_extension_data (Some k)],
      w_responses = []\<rparr>"
  by (simp add: example_instance_def LV2PluginInstance_new_def init_def init_port_def
      example_ports_def new_atom_port_def lv2_atom_sequence_clear_def ABUFSIZED_def
      instantiate_def isOK_def activate_def connectPorts_def connect_calls_def map_keys_def upt_5
      numeral_2_eq_2 Suc_numerals)

lemma example_instance_None:
  "example_instance n None ext =
     \<lparr>m_instrument = 1, m_position = 0, m_instance = None,
      m_pluginData = example_ports,
      m_channelCount = 2, m_midiParser = (), m_midiEventUrid = 9,
      m_blockSize = n, m_sampleRate = 32000, m_latencyPort = Some 4,
      m_run = False, m_bypassed = False, m_distributeChannels = True,
      m_audioPortsIn = [0, - 1], m_audioPortsOut = [1, - 1],
      m_controlPortsIn = [3 \<mapsto> 0], m_controlPortsOut = [4 \<mapsto> 0],
      m_atomInputPorts =
        [\<lparr>index = 2, isMidi = True,
          atomSeq = \<lparr>atom_size = 799992, atom_type = 7, seq_events = [],
                     seq_behind = []\<rparr>\<rparr>],
      m_atomOutputPorts = [],
      m_inputBuffers = [replicate n 0, replicate n 0],
      m_outputBuffers = [replicate n 0, replicate n 0], m_eventBuffer = [],
      m_workerInterface = ext,
      w_trace =
        [New_atom_buffer 100000, New_samples n, New_samples n, New_samples n,
         New_samples n, Lilv_instantiate 32000, Warn_failed_to_instantiate,
         Lilv_get_extension_data None],
      w_responses = []\<rparr>"
  by (simp add: example_instance_def LV2PluginInstance_new_def init_def init_port_def
      example_ports_def new_atom_port_def lv2_atom_sequence_clear_def ABUFSIZED_def
      instantiate_def isOK_def numeral_2_eq_2 Suc_numerals)

section \<open>The pending events\<close>

lemma map_assign_twice: "map_assign t e2 (map_assign t e1 q) = map_assign t e2 q"
  by (induction q) auto

lemma keys_map_assign: "set (map fst (map_assign t e q)) = insert t (set (map fst q))"
  by (induction t e q rule: map_assign.induct) (simp_all add: insert_commute)

lemma fst_set_map_assign: "fst ` set (map_assign t e q) = insert t (fst ` set q)"
  using keys_map_assign [of t e q] by simp

lemma map_ok_Cons: "map_ok ((t, e) # q) \<longleftrightarrow> (\<forall>k \<in> fst ` set q. t < k) \<and> map_ok q"
  by (auto simp: map_ok_def)

lemma map_ok_map_assign: "map_ok q \<Longrightarrow> map_ok (map_assign t e q)"
proof (induction q)
  case Nil
  then show ?case by (simp add: map_ok_def)
next
  case (Cons a q)
  obtain t' e' where a: "a = (t', e')" by (cases a)
  from Cons.prems a have lt: "\<forall>k \<in> fst ` set q. t' < k" and ok: "map_ok q"
    by (simp_all add: map_ok_Cons)
  consider "t = t'" | "t < t'" | "t' < t" by linarith
  then show ?case
  proof cases
    case 1
    then show ?thesis using a lt ok by (simp add: map_ok_Cons)
  next
    case 2
    then have "\<forall>k \<in> fst ` set q. t < k" using lt by fastforce
    then show ?thesis using 2 a lt ok by (simp add: map_ok_Cons)
  next
    case 3
    then show ?thesis using a lt ok Cons.IH by (simp add: map_ok_Cons fst_set_map_assign)
  qed
qed

lemma filter_key_absent:
  "t \<notin> fst ` set q \<Longrightarrow> filter (\<lambda>(k, _). k = t) q = []"
  by (induction q) auto

lemma filter_map_assign_same:
  "map_ok q \<Longrightarrow> filter (\<lambda>(k, _). k = t) (map_assign t e q) = [(t, e)]"
proof (induction q)
  case Nil
  then show ?case by simp
next
  case (Cons a q)
  obtain t' e' where a: "a = (t', e')" by (cases a)
  show ?case
  proof (cases "t = t'")
    case True
    with Cons.prems a have "t \<notin> fst ` set q" by (auto simp: map_ok_Cons)
    then show ?thesis using True a by (simp add: filter_key_absent)
  next
    case False
    note neq = this
    show ?thesis
    proof (cases "t < t'")
      case True
      with Cons.prems a have "t \<notin> fst ` set q" by (force simp: map_ok_Cons)
      then show ?thesis using True neq a by (simp add: filter_key_absent)
    next
      case False
      with Cons neq a show ?thesis by (simp add: map_ok_Cons)
    qed
  qed
qed

lemma map_ok_sendEvents:
  "map_ok (m_eventBuffer s) \<Longrightarrow> map_ok (m_eventBuffer (sendEvents evs s))"
  by (induction evs arbitrary: s) (auto simp: sendEvent_def map_ok_map_assign)

text \<open>
  Claim C10. The pending events hold at most one event for a time. When \<^verbatim>\<open>sendEvent\<close> is
  called twice with the same time, the instance is left as if the first call had not been
  made; and whatever other \<^verbatim>\<open>sendEvent\<close> calls come between the two (no \<^verbatim>\<open>run\<close>, no
  \<^verbatim>\<open>discardEvents\<close>), the map stays strictly ordered by time and its only entry for that
  time is the second event: the first can no longer be delivered.
\<close>

theorem sendEvent_same_time_replaces:
  assumes "map_ok (m_eventBuffer s)"
  shows "sendEvent t e2 (sendEvent t e1 s) = sendEvent t e2 s \<and>
         map_ok (m_eventBuffer (sendEvent t e2 (sendEvents between (sendEvent t e1 s)))) \<and>
         filter (\<lambda>(k, _). k = t)
           (m_eventBuffer (sendEvent t e2 (sendEvents between (sendEvent t e1 s)))) = [(t, e2)]"
proof -
  have ok: "map_ok (m_eventBuffer (sendEvents between (sendEvent t e1 s)))"
    using assms by (simp add: map_ok_sendEvents sendEvent_def map_ok_map_assign)
  show ?thesis
    using ok by (simp add: sendEvent_def map_assign_twice map_ok_map_assign filter_map_assign_same)
qed

theorem sendEvent_same_time_replaces_witness:
  "map_ok (m_eventBuffer (example_instance 2 (Some 1) None)) \<and>
   m_eventBuffer (sendEvent 5 [0x80, 60, 0]
     (sendEvents [(7, [0xB0, 1, 2])] (sendEvent 5 [0x90, 60, 100] (example_instance 2 (Some 1) None))))
     = [(5, [0x80, 60, 0]), (7, [0xB0, 1, 2])] \<and>
   filter (\<lambda>(k, _). k = 5)
     (m_eventBuffer (sendEvent 5 [0x80, 60, 0]
        (sendEvents [(7, [0xB0, 1, 2])] (sendEvent 5 [0x90, 60, 100] (example_instance 2 (Some 1) None)))))
     = [(5, [0x80, 60, 0])]"
proof -
  have h: "map_ok (m_eventBuffer (example_instance 2 (Some 1) None))"
    by (simp add: example_instance_Some map_ok_def)
  show ?thesis
    using h sendEvent_same_time_replaces [OF h, of 5 "[0x80, 60, 0]" "[0x90, 60, 100]"
        "[(7, [0xB0, 1, 2])]"]
    by (simp add: sendEvent_def example_instance_Some)
qed

section \<open>Control ports\<close>

text \<open>
  The entries of \<^verbatim>\<open>m_controlPortsIn\<close> of a new instance are the control inputs among the
  plugin's ports, and \<^verbatim>\<open>m_pluginData\<close> holds their declared ranges.
\<close>

lemma init_port_controlIn:
  "m_controlPortsIn (init_port u i pd s) =
     (if is_control_in pd then (m_controlPortsIn s)(i \<mapsto> 0) else m_controlPortsIn s)"
  "m_pluginData (init_port u i pd s) = m_pluginData s"
  by (cases "portType pd"; simp add: init_port_def Let_def is_control_in_def)+

lemma init_ports_controlIn:
  "dom (m_controlPortsIn (init_ports u i ports s)) =
     dom (m_controlPortsIn s) \<union> {i + j | j. j < length ports \<and> is_control_in (ports ! j)}"
  "m_pluginData (init_ports u i ports s) = m_pluginData s"
proof (induction ports arbitrary: i s)
  case Nil
  { case 1 show ?case by simp }
  { case 2 show ?case by simp }
next
  case (Cons pd ports)
  { case 1
    have split: "{i + j | j. j < length (pd # ports) \<and> is_control_in ((pd # ports) ! j)} =
      (if is_control_in pd then {i} else {}) \<union>
      {Suc i + j | j. j < length ports \<and> is_control_in (ports ! j)}"
      by (auto simp: less_Suc_eq_0_disj)
    show ?case
      unfolding split using Cons.IH(1) [of "Suc i" "init_port u i pd s"]
      by (auto simp: init_port_controlIn split: if_splits)
  }
  { case 2 show ?case using Cons.IH(2) by (simp add: init_port_controlIn) }
qed

lemma setPortValue_dom:
  "dom (m_controlPortsIn (setPortValue p v s)) = dom (m_controlPortsIn s)"
  "m_pluginData (setPortValue p v s) = m_pluginData s"
  by (auto simp: setPortValue_def Let_def split: option.splits)

lemma restore_state_dom:
  "dom (m_controlPortsIn (restore_state ds s)) = dom (m_controlPortsIn s)"
  "m_pluginData (restore_state ds s) = m_pluginData s"
  by (induction ds s rule: restore_state.induct) (simp_all add: setPortValue_dom)

lemma new_control_inputs:
  "dom (m_controlPortsIn
          (LV2PluginInstance_new pd instr pos sr bs icc squ mu parser h ds ext)) =
     {j. j < length pd \<and> is_control_in (pd ! j)}"
  "m_pluginData (LV2PluginInstance_new pd instr pos sr bs icc squ mu parser h ds ext) = pd"
  by (simp_all add: LV2PluginInstance_new_def Let_def init_def init_ports_controlIn
      instantiate_def isOK_def activate_def connectPorts_def restore_state_dom)

text \<open>
  Claim C7. For a control input port (an entry of \<^verbatim>\<open>m_controlPortsIn\<close>) whose declared
  range has its minimum below or at its maximum, \<^verbatim>\<open>setPortValue\<close> followed by
  \<^verbatim>\<open>getPortValue\<close> returns the value clamped to the range. The witness is the gain of
  the example plugin, of range 0 to 1, set to 1.5 and read back as 1.
\<close>

theorem setPortValue_getPortValue:
  assumes "m_controlPortsIn s portNumber \<noteq> None"
    and "min_port (m_pluginData s ! portNumber) \<le> max_port (m_pluginData s ! portNumber)"
  shows "getPortValue portNumber (setPortValue portNumber v s) =
           max (min_port (m_pluginData s ! portNumber))
               (min (max_port (m_pluginData s ! portNumber)) v)"
  using assms by (auto simp: getPortValue_def setPortValue_def Let_def)

theorem setPortValue_getPortValue_witness:
  "m_controlPortsIn (example_instance 2 (Some 1) None) 3 \<noteq> None \<and>
   min_port (m_pluginData (example_instance 2 (Some 1) None) ! 3) = 0 \<and>
   max_port (m_pluginData (example_instance 2 (Some 1) None) ! 3) = 1 \<and>
   getPortValue 3 (setPortValue 3 (3 / 2) (example_instance 2 (Some 1) None)) = 1"
proof -
  have h1: "m_controlPortsIn (example_instance 2 (Some 1) None) 3 \<noteq> None"
    by (simp add: example_instance_Some)
  have h2: "min_port (m_pluginData (example_instance 2 (Some 1) None) ! 3)
              \<le> max_port (m_pluginData (example_instance 2 (Some 1) None) ! 3)"
    by (simp add: example_instance_Some example_ports_def)
  show ?thesis
    using h1 setPortValue_getPortValue [OF h1 h2, of "3 / 2"]
    by (simp add: example_instance_Some example_ports_def)
qed

section \<open>The event loop\<close>

lemma realTime2Frame_nonneg: "0 \<le> t \<Longrightarrow> 0 \<le> realTime2Frame t sr"
  by (simp add: realTime2Frame_def pos_imp_zdiv_nonneg_iff)

lemma realTime2Frame_mono:
  assumes "0 \<le> a" "a \<le> b"
  shows "realTime2Frame a sr \<le> realTime2Frame b sr"
proof -
  have "2 * a * int sr + 1000000000 \<le> 2 * b * int sr + 1000000000"
    using assms by (simp add: mult_right_mono)
  then show ?thesis
    using assms by (simp add: realTime2Frame_def zdiv_mono1)
qed

lemma frame_offset_mono:
  "t1 \<le> t2 \<Longrightarrow> frame_offset st sr t1 \<le> frame_offset st sr t2"
proof -
  assume le: "t1 \<le> t2"
  let ?d1 = "(if t1 < st then st else t1) - st"
  let ?d2 = "(if t2 < st then st else t2) - st"
  have d: "0 \<le> ?d1" "?d1 \<le> ?d2" using le by auto
  have "realTime2Frame ?d1 sr \<le> realTime2Frame ?d2 sr"
    by (rule realTime2Frame_mono [OF d])
  moreover have "0 \<le> realTime2Frame ?d1 sr"
    by (rule realTime2Frame_nonneg [OF d(1)])
  ultimately show ?thesis
    unfolding frame_offset_def size_t_of_long_def by auto
qed

lemma frame_offset_late: "t \<le> st \<Longrightarrow> frame_offset st sr t = 0"
  by (auto simp: frame_offset_def realTime2Frame_def size_t_of_long_def)

lemma sorted_frame_offsets:
  "map_ok q \<Longrightarrow> sorted (map (\<lambda>x. frame_offset st sr (fst x)) q)"
proof (induction q)
  case Nil
  then show ?case by simp
next
  case (Cons a q)
  obtain t e where a: "a = (t, e)" by (cases a)
  from Cons.prems a have lt: "\<forall>k \<in> fst ` set q. t < k" and ok: "map_ok q"
    by (simp_all add: map_ok_Cons)
  have "\<forall>x \<in> set q. frame_offset st sr t \<le> frame_offset st sr (fst x)"
  proof
    fix x assume "x \<in> set q"
    with lt have "t \<le> fst x" by force
    then show "frame_offset st sr t \<le> frame_offset st sr (fst x)"
      by (rule frame_offset_mono)
  qed
  then show ?case using Cons.IH ok a by simp
qed

lemma subseq_sorted:
  "subseq ys xs \<Longrightarrow> sorted xs \<Longrightarrow> sorted (ys :: nat list)"
proof (induction rule: list_emb.induct)
  case (list_emb_Nil ys)
  then show ?case by simp
next
  case (list_emb_Cons xs ys y)
  then show ?case by simp
next
  case (list_emb_Cons2 x y xs ys)
  then have "set xs \<subseteq> set ys" by (auto dest: list_emb_set)
  with list_emb_Cons2 show ?case by auto
qed

lemma append_to_midi_ports_rel:
  "list_all2 (\<lambda>old new. appended_by [] old new \<or> appended_by [ev] old new)
     aips (fst (append_to_midi_ports ev aips))"
  by (induction aips)
     (auto simp: appended_by_def lv2_atom_sequence_append_event_def Let_def
           split: prod.splits option.splits if_splits)

lemma run_events_consumes:
  "run_events decode sr n urid st q p aips tr = (ret, q', p', aips', tr') \<Longrightarrow>
   \<exists>c. q = c @ q' \<and>
       list_all2 (\<lambda>old new. \<exists>ys. appended_by ys old new \<and>
                    subseq (map time_frames ys) (map (\<lambda>x. frame_offset st sr (fst x)) c))
         aips aips'"
proof (induction q arbitrary: p aips tr)
  case Nil
  then have "list_all2 (\<lambda>old new. \<exists>ys. appended_by ys old new \<and>
                    subseq (map time_frames ys) (map (\<lambda>x. frame_offset st sr (fst x)) []))
         aips aips'"
    by (auto simp: list_all2_conv_all_nth appended_by_def)
  with Nil show ?case by auto
next
  case (Cons a q)
  obtain t e where a: "a = (t, e)" by (cases a)
  let ?off = "frame_offset st sr t"
  obtain bytes buf p1 where dec: "decode p e = (bytes, buf, p1)" by (cases "decode p e")
  let ?ev = "\<lparr>time_frames = ?off, body_size = nat bytes, body_type = urid,
               body_data = take (nat bytes) buf\<rparr>"
  obtain aips1 msgs where app: "append_to_midi_ports ?ev aips = (aips1, msgs)"
    by (cases "append_to_midi_ports ?ev aips")
  have refl: "list_all2 (\<lambda>old new. \<exists>ys. appended_by ys old new \<and>
                    subseq (map time_frames ys) (map (\<lambda>x. frame_offset st sr (fst x)) []))
         aips aips"
    by (auto simp: list_all2_conv_all_nth appended_by_def)
  show ?case
  proof (cases "?off > n \<or> bytes \<le> 0")
    case True
    with Cons.prems a dec have "q' = a # q" "aips' = aips"
      by (auto simp: frame_offset_def Let_def split: if_splits)
    with refl show ?thesis by auto
  next
    case False
    with Cons.prems a dec app
    have rec: "run_events decode sr n urid st q p1 aips1
                 (tr @ [Dbg_send_event (if t < st then st else t) ?off (take (nat bytes) buf)] @ msgs)
               = (ret, q', p', aips', tr')"
      by (auto simp: frame_offset_def Let_def split: if_splits)
    from Cons.IH [OF rec] obtain c where c: "q = c @ q'"
      and rel: "list_all2 (\<lambda>old new. \<exists>ys. appended_by ys old new \<and>
                    subseq (map time_frames ys) (map (\<lambda>x. frame_offset st sr (fst x)) c))
         aips1 aips'"
      by blast
    have step: "list_all2 (\<lambda>old new. appended_by [] old new \<or> appended_by [?ev] old new) aips aips1"
      using append_to_midi_ports_rel [of ?ev aips] app by simp
    have "list_all2 (\<lambda>old new. \<exists>ys. appended_by ys old new \<and>
                    subseq (map time_frames ys) (map (\<lambda>x. frame_offset st sr (fst x)) (a # c)))
         aips aips'"
    proof (rule list_all2_trans [OF _ step rel])
      fix x y z
      assume xy: "appended_by [] x y \<or> appended_by [?ev] x y"
        and yz: "\<exists>ys. appended_by ys y z \<and>
                    subseq (map time_frames ys) (map (\<lambda>x. frame_offset st sr (fst x)) c)"
      from yz obtain ys where ys: "appended_by ys y z"
        "subseq (map time_frames ys) (map (\<lambda>x. frame_offset st sr (fst x)) c)" by blast
      from xy show "\<exists>ys. appended_by ys x z \<and>
                    subseq (map time_frames ys) (map (\<lambda>x. frame_offset st sr (fst x)) (a # c))"
      proof
        assume "appended_by [] x y"
        with ys have "appended_by ys x z" by (simp add: appended_by_def)
        with ys(2) show ?thesis by (auto simp: a)
      next
        assume "appended_by [?ev] x y"
        with ys have "appended_by (?ev # ys) x z" by (simp add: appended_by_def)
        moreover have "subseq (map time_frames (?ev # ys)) (map (\<lambda>x. frame_offset st sr (fst x)) (a # c))"
          using ys(2) by (simp add: a)
        ultimately show ?thesis by blast
      qed
    qed
    moreover have "a # q = (a # c) @ q'" using c by simp
    ultimately show ?thesis by blast
  qed
qed

text \<open>
  One step of the loop, case by case: the loop stops at an envelope whose frame offset is
  above the block size; it returns at an envelope that fails to decode; otherwise it
  erases the envelope, appends the event and goes on.
\<close>

lemma run_events_beyond_block:
  "frame_offset st sr t > n \<Longrightarrow>
   run_events decode sr n urid st ((t, e) # rest) p aips tr = (False, (t, e) # rest, p, aips, tr)"
  by (simp add: frame_offset_def Let_def)

lemma run_events_decode_error:
  "frame_offset st sr t \<le> n \<Longrightarrow> decode p e = (bytes, buf, p') \<Longrightarrow> bytes \<le> 0 \<Longrightarrow>
   run_events decode sr n urid st ((t, e) # rest) p aips tr =
     (True, (t, e) # rest, p', aips, tr @ [Dbg_error_decoding])"
  by (simp add: frame_offset_def Let_def)

lemma run_events_delivers:
  "frame_offset st sr t \<le> n \<Longrightarrow> decode p e = (bytes, buf, p') \<Longrightarrow> 0 < bytes \<Longrightarrow>
   run_events decode sr n urid st ((t, e) # rest) p aips tr =
     run_events decode sr n urid st rest p'
       (fst (append_to_midi_ports
          \<lparr>time_frames = frame_offset st sr t, body_size = nat bytes, body_type = urid,
           body_data = take (nat bytes) buf\<rparr> aips))
       (tr @ [Dbg_send_event (if t < st then st else t) (frame_offset st sr t)
                (take (nat bytes) buf)] @
        snd (append_to_midi_ports
          \<lparr>time_frames = frame_offset st sr t, body_size = nat bytes, body_type = urid,
           body_data = take (nat bytes) buf\<rparr> aips))"
  by (simp add: frame_offset_def Let_def split: prod.splits)


section \<open>The channel loops\<close>

lemma mix_inputs_closed:
  "length bufs = 2 \<Longrightarrow> length (bufs ! 0) = n \<Longrightarrow> length (bufs ! 1) = n \<Longrightarrow>
   mix_inputs i n bufs =
     [take i (bufs ! 0) @
        map (\<lambda>(l, r). (l + r) / 2) (zip (drop i (bufs ! 0)) (drop i (bufs ! 1))),
      bufs ! 1]"
proof (induction i n bufs rule: mix_inputs.induct)
  case (1 i n bufs)
  from "1.prems"(1) obtain b0 b1 where bufs: "bufs = [b0, b1]"
    by (cases bufs; cases "tl bufs") auto
  show ?case
  proof (cases "i < n")
    case True
    let ?a = "(b0 ! i + b1 ! i) / 2"
    have IH: "mix_inputs (Suc i) n [b0[i := ?a], b1] =
      [take (Suc i) (b0[i := ?a]) @
        map (\<lambda>(l, r). (l + r) / 2) (zip (drop (Suc i) (b0[i := ?a])) (drop (Suc i) b1)), b1]"
      using "1.IH" [OF True] "1.prems" True bufs by simp
    have t: "take (Suc i) (b0[i := ?a]) = take i b0 @ [?a]"
      using True "1.prems" bufs by (simp add: take_Suc_conv_app_nth)
    have d0: "drop i b0 = b0 ! i # drop (Suc i) b0"
      using True "1.prems" bufs by (simp add: Cons_nth_drop_Suc)
    have d1: "drop i b1 = b1 ! i # drop (Suc i) b1"
      using True "1.prems" bufs by (simp add: Cons_nth_drop_Suc)
    have "mix_inputs i n bufs = mix_inputs (Suc i) n [b0[i := ?a], b1]"
      using True bufs by (subst mix_inputs.simps) simp
    then show ?thesis
      using IH t d0 d1 bufs by simp
  next
    case False
    then show ?thesis
      using "1.prems" bufs by (subst mix_inputs.simps) simp
  qed
qed

lemma distribute_outputs_closed:
  "length bufs = 2 \<Longrightarrow> length (bufs ! 0) = n \<Longrightarrow> length (bufs ! 1) = n \<Longrightarrow>
   distribute_outputs i n bufs = [bufs ! 0, take i (bufs ! 1) @ drop i (bufs ! 0)]"
proof (induction i n bufs rule: distribute_outputs.induct)
  case (1 i n bufs)
  from "1.prems"(1) obtain b0 b1 where bufs: "bufs = [b0, b1]"
    by (cases bufs; cases "tl bufs") auto
  show ?case
  proof (cases "i < n")
    case True
    have IH: "distribute_outputs (Suc i) n [b0, b1[i := b0 ! i]] =
      [b0, take (Suc i) (b1[i := b0 ! i]) @ drop (Suc i) b0]"
      using "1.IH" [OF True] "1.prems" True bufs by simp
    have t: "take (Suc i) (b1[i := b0 ! i]) = take i b1 @ [b0 ! i]"
      using True "1.prems" bufs by (simp add: take_Suc_conv_app_nth)
    have d0: "drop i b0 = b0 ! i # drop (Suc i) b0"
      using True "1.prems" bufs by (simp add: Cons_nth_drop_Suc)
    have "distribute_outputs i n bufs = distribute_outputs (Suc i) n [b0, b1[i := b0 ! i]]"
      using True bufs by (subst distribute_outputs.simps) simp
    then show ?thesis
      using IH t d0 bufs by simp
  next
    case False
    then show ?thesis
      using "1.prems" bufs by (subst distribute_outputs.simps) simp
  qed
qed

lemma mix_inputs_0:
  "length L = n \<Longrightarrow> length R = n \<Longrightarrow>
   mix_inputs 0 n [L, R] = [map (\<lambda>(l, r). (l + r) / 2) (zip L R), R]"
  using mix_inputs_closed [of "[L, R]" n 0] by simp

lemma distribute_outputs_0:
  "length out0 = n \<Longrightarrow> length out1 = n \<Longrightarrow>
   distribute_outputs 0 n [out0, out1] = [out0, out0]"
  using distribute_outputs_closed [of "[out0, out1]" n 0] by simp

section \<open>What the parts of \<^verbatim>\<open>run\<close> leave alone\<close>

lemma run_before_events:
  "run_events decode (m_sampleRate s) (m_blockSize s) (m_midiEventUrid s) rt
     (m_eventBuffer s) (m_midiParser s) (m_atomInputPorts s) (w_trace s)
   = (fst (run_before decode rt s), m_eventBuffer (snd (run_before decode rt s)),
      m_midiParser (snd (run_before decode rt s)), m_atomInputPorts (snd (run_before decode rt s)),
      w_trace (snd (run_before decode rt s)))"
proof -
  obtain r q parser aips tr where ev:
    "run_events decode (m_sampleRate s) (m_blockSize s) (m_midiEventUrid s) rt
       (m_eventBuffer s) (m_midiParser s) (m_atomInputPorts s) (w_trace s)
     = (r, q, parser, aips, tr)"
    by (rule prod_cases5)
  show ?thesis
    unfolding run_before_def Let_def ev by simp
qed

lemma run_before_frame:
  "m_outputBuffers (snd (run_before decode rt s)) = m_outputBuffers s"
  "m_blockSize (snd (run_before decode rt s)) = m_blockSize s"
  "m_distributeChannels (snd (run_before decode rt s)) = m_distributeChannels s"
  "m_audioPortsIn (snd (run_before decode rt s)) = m_audioPortsIn s"
  "m_audioPortsOut (snd (run_before decode rt s)) = m_audioPortsOut s"
  "m_instance (snd (run_before decode rt s)) = m_instance s"
  "m_workerInterface (snd (run_before decode rt s)) = m_workerInterface s"
  "w_responses (snd (run_before decode rt s)) = w_responses s"
  "m_instrument (snd (run_before decode rt s)) = m_instrument s"
  "m_position (snd (run_before decode rt s)) = m_position s"
  "m_sampleRate (snd (run_before decode rt s)) = m_sampleRate s"
  "m_channelCount (snd (run_before decode rt s)) = m_channelCount s"
  "m_midiEventUrid (snd (run_before decode rt s)) = m_midiEventUrid s"
  "m_controlPortsIn (snd (run_before decode rt s)) = m_controlPortsIn s"
  "m_controlPortsOut (snd (run_before decode rt s)) = m_controlPortsOut s"
proof -
  obtain r q parser aips tr where ev:
    "run_events decode (m_sampleRate s) (m_blockSize s) (m_midiEventUrid s) rt
       (m_eventBuffer s) (m_midiParser s) (m_atomInputPorts s) (w_trace s)
     = (r, q, parser, aips, tr)"
    by (rule prod_cases5)
  show "m_outputBuffers (snd (run_before decode rt s)) = m_outputBuffers s"
    "m_blockSize (snd (run_before decode rt s)) = m_blockSize s"
    "m_distributeChannels (snd (run_before decode rt s)) = m_distributeChannels s"
    "m_audioPortsIn (snd (run_before decode rt s)) = m_audioPortsIn s"
    "m_audioPortsOut (snd (run_before decode rt s)) = m_audioPortsOut s"
    "m_instance (snd (run_before decode rt s)) = m_instance s"
    "m_workerInterface (snd (run_before decode rt s)) = m_workerInterface s"
    "w_responses (snd (run_before decode rt s)) = w_responses s"
    "m_instrument (snd (run_before decode rt s)) = m_instrument s"
    "m_position (snd (run_before decode rt s)) = m_position s"
    "m_sampleRate (snd (run_before decode rt s)) = m_sampleRate s"
    "m_channelCount (snd (run_before decode rt s)) = m_channelCount s"
    "m_midiEventUrid (snd (run_before decode rt s)) = m_midiEventUrid s"
    "m_controlPortsIn (snd (run_before decode rt s)) = m_controlPortsIn s"
    "m_controlPortsOut (snd (run_before decode rt s)) = m_controlPortsOut s"
    unfolding run_before_def Let_def ev by simp_all
qed

lemma run_before_inputs:
  "\<not> fst (run_before decode rt s) \<Longrightarrow>
   m_inputBuffers (snd (run_before decode rt s)) =
     (if m_distributeChannels s then mix_inputs 0 (m_blockSize s) (m_inputBuffers s)
      else m_inputBuffers s)"
proof -
  obtain r q parser aips tr where ev:
    "run_events decode (m_sampleRate s) (m_blockSize s) (m_midiEventUrid s) rt
       (m_eventBuffer s) (m_midiParser s) (m_atomInputPorts s) (w_trace s)
     = (r, q, parser, aips, tr)"
    by (rule prod_cases5)
  show "\<not> fst (run_before decode rt s) \<Longrightarrow> ?thesis"
    unfolding run_before_def Let_def ev by (cases r) simp_all
qed

lemma lilv_instance_run_frame:
  "m_eventBuffer (lilv_instance_run process s) = m_eventBuffer s"
  "m_distributeChannels (lilv_instance_run process s) = m_distributeChannels s"
  "m_blockSize (lilv_instance_run process s) = m_blockSize s"
  "m_workerInterface (lilv_instance_run process s) = m_workerInterface s"
  "w_responses (lilv_instance_run process s) = w_responses s"
  "m_instrument (lilv_instance_run process s) = m_instrument s"
  "m_position (lilv_instance_run process s) = m_position s"
  "m_midiEventUrid (lilv_instance_run process s) = m_midiEventUrid s"
  "m_instance (lilv_instance_run process s) = m_instance s"
  by (simp_all add: lilv_instance_run_def Let_def split: option.splits)

lemma run_worker_responses_frame:
  "m_eventBuffer (run_worker_responses s) = m_eventBuffer s"
  "m_outputBuffers (run_worker_responses s) = m_outputBuffers s"
  "m_distributeChannels (run_worker_responses s) = m_distributeChannels s"
  "m_blockSize (run_worker_responses s) = m_blockSize s"
  "m_midiEventUrid (run_worker_responses s) = m_midiEventUrid s"
  "m_atomOutputPorts (run_worker_responses s) = m_atomOutputPorts s"
  by (simp_all add: run_worker_responses_def Let_def split: option.splits prod.splits)

lemma run_clear_atom_in_frame:
  "m_eventBuffer (run_clear_atom_in s) = m_eventBuffer s"
  "m_outputBuffers (run_clear_atom_in s) = m_outputBuffers s"
  "m_distributeChannels (run_clear_atom_in s) = m_distributeChannels s"
  "m_blockSize (run_clear_atom_in s) = m_blockSize s"
  "m_midiEventUrid (run_clear_atom_in s) = m_midiEventUrid s"
  "m_atomOutputPorts (run_clear_atom_in s) = m_atomOutputPorts s"
  "w_trace (run_clear_atom_in s) = w_trace s"
  "w_responses (run_clear_atom_in s) = w_responses s"
  by (simp_all add: run_clear_atom_in_def)

lemma run_atom_out_frame:
  "m_eventBuffer (run_atom_out s) = m_eventBuffer s"
  "m_outputBuffers (run_atom_out s) = m_outputBuffers s"
  "m_distributeChannels (run_atom_out s) = m_distributeChannels s"
  "m_blockSize (run_atom_out s) = m_blockSize s"
  "w_responses (run_atom_out s) = w_responses s"
  by (simp_all add: run_atom_out_def split: prod.splits)

lemma run_distribute_frame:
  "m_eventBuffer (run_distribute s) = m_eventBuffer s"
  "w_trace (run_distribute s) = w_trace s"
  "w_responses (run_distribute s) = w_responses s"
  by (simp_all add: run_distribute_def)

lemma run_after_eventBuffer: "m_eventBuffer (run_after s) = m_eventBuffer s"
  by (simp add: run_after_def run_distribute_frame run_atom_out_frame run_clear_atom_in_frame
      run_worker_responses_frame)

lemma run_after_outputs:
  "m_outputBuffers (run_after s) =
     (if m_distributeChannels s
      then distribute_outputs 0 (m_blockSize s) (m_outputBuffers s)
      else m_outputBuffers s)"
  by (simp add: run_after_def run_distribute_def run_atom_out_frame run_clear_atom_in_frame
      run_worker_responses_frame)

lemma run_unfold:
  "run decode process rt s =
     (if fst (run_before decode rt s) then snd (run_before decode rt s)
      else run_after (lilv_instance_run process (snd (run_before decode rt s))))"
  by (simp add: run_def split: prod.splits)

lemma run_eventBuffer:
  "m_eventBuffer (run decode process rt s) = m_eventBuffer (snd (run_before decode rt s))"
  by (simp add: run_unfold run_after_eventBuffer lilv_instance_run_frame)

lemma run_outputs:
  "\<not> fst (run_before decode rt s) \<Longrightarrow>
   m_outputBuffers (run decode process rt s) =
     (if m_distributeChannels s
      then distribute_outputs 0 (m_blockSize s)
             (m_outputBuffers (lilv_instance_run process (snd (run_before decode rt s))))
      else m_outputBuffers (lilv_instance_run process (snd (run_before decode rt s))))"
  by (simp add: run_unfold run_after_outputs lilv_instance_run_frame run_before_frame)

lemma map_ok_append: "map_ok (c @ q) \<Longrightarrow> map_ok q \<and> set (map fst c) \<inter> set (map fst q) = {}"
  by (fastforce simp: map_ok_def sorted_wrt_append)


section \<open>The running example, explicitly\<close>

lemma example_running_eq:
  "example_running n ext =
     (example_instance n (Some 1) ext)
       \<lparr>m_atomInputPorts :=
          [\<lparr>index = 2, isMidi = True,
            atomSeq = \<lparr>atom_size = 8, atom_type = 7, seq_events = [],
                       seq_behind = []\<rparr>\<rparr>],
        m_run := True,
        w_trace := w_trace (example_instance n (Some 1) ext) @
                     [Lilv_run (Some 1) n] @
                     (case ext of None \<Rightarrow> []
                      | Some wi \<Rightarrow> if has_end_run wi then [End_run (Some 1)] else [])\<rparr>"
  by (cases ext)
     (simp_all add: example_running_def example_instance_Some run_unfold run_before_def
      run_after_def run_worker_responses_def run_clear_atom_in_def run_atom_out_def
      run_distribute_def lilv_instance_run_def plugin_view_def connected_def copy_through_def
      mix_inputs_0 distribute_outputs_0 lv2_atom_sequence_clear_def
      worker_responses.simps)


lemmas eval_run_before =
  run_returns_early_def run_at_process_def run_before_def size_t_of_long_def
  realTime2Frame_def raw_decode_def lv2_atom_sequence_append_event_def lv2_atom_pad_size_def
  ABUFSIZED_def sendEvent_def example_running_eq example_instance_Some frame_offset_def

section \<open>Events of one block\<close>

text \<open>
  Claim C3. The pending events being a map (times strictly increasing, so pairwise
  distinct), one \<^verbatim>\<open>run\<close> call consumes a front part of it and leaves the rest pending.
  To every atom input port it appends events whose frame offsets are non-decreasing: they
  are, in order, frame offsets of consumed envelopes, each used at most once. The consumed
  envelopes are gone from the map, so a later \<^verbatim>\<open>run\<close> call, whatever its decoder,
  callback and block start, consumes only other envelopes.
\<close>

theorem events_in_frame_order_and_once:
  fixes s :: "('p, 'e) LV2PluginInstance"
  assumes ok: "map_ok (m_eventBuffer s)"
  shows "\<exists>consumed.
           m_eventBuffer s = consumed @ m_eventBuffer (run decode process rt s) \<and>
           map_ok (m_eventBuffer (run decode process rt s)) \<and>
           set (map fst consumed) \<inter> set (map fst (m_eventBuffer (run decode process rt s))) = {} \<and>
           list_all2
             (\<lambda>old new. \<exists>ys. appended_by ys old new \<and> sorted (map time_frames ys) \<and>
                subseq (map time_frames ys)
                  (map (\<lambda>x. frame_offset rt (m_sampleRate s) (fst x)) consumed))
             (m_atomInputPorts s) (m_atomInputPorts (run_at_process decode rt s)) \<and>
           (\<forall>decode' process' rt'. \<exists>consumed'.
              m_eventBuffer (run decode process rt s) =
                consumed' @ m_eventBuffer (run decode' process' rt' (run decode process rt s)) \<and>
              set (map fst consumed) \<inter> set (map fst consumed') = {})"
proof -
  let ?s1 = "snd (run_before decode rt s)"
  let ?s' = "run decode process rt s"
  have eb: "m_eventBuffer ?s' = m_eventBuffer ?s1"
    by (rule run_eventBuffer)
  from run_events_consumes [OF run_before_events [of decode s rt]] obtain c where
    c: "m_eventBuffer s = c @ m_eventBuffer ?s1"
    and rel: "list_all2
             (\<lambda>old new. \<exists>ys. appended_by ys old new \<and>
                subseq (map time_frames ys)
                  (map (\<lambda>x. frame_offset rt (m_sampleRate s) (fst x)) c))
             (m_atomInputPorts s) (m_atomInputPorts ?s1)"
    by blast
  have okc: "map_ok c"
    using ok c by (simp add: map_ok_def sorted_wrt_append)
  have srt: "sorted (map (\<lambda>x. frame_offset rt (m_sampleRate s) (fst x)) c)"
    using sorted_frame_offsets [OF okc, of rt "m_sampleRate s"] by (simp add: comp_def)
  have rel': "list_all2
             (\<lambda>old new. \<exists>ys. appended_by ys old new \<and> sorted (map time_frames ys) \<and>
                subseq (map time_frames ys)
                  (map (\<lambda>x. frame_offset rt (m_sampleRate s) (fst x)) c))
             (m_atomInputPorts s) (m_atomInputPorts (run_at_process decode rt s))"
    unfolding run_at_process_def
    by (rule list_all2_mono [OF rel]) (use srt in \<open>blast intro: subseq_sorted\<close>)
  have split: "map_ok (m_eventBuffer ?s1)"
    "set (map fst c) \<inter> set (map fst (m_eventBuffer ?s1)) = {}"
    using map_ok_append [of c "m_eventBuffer ?s1"] ok c by simp_all
  have next_run: "\<exists>consumed'.
      m_eventBuffer ?s' = consumed' @ m_eventBuffer (run decode' process' rt' ?s') \<and>
      set (map fst c) \<inter> set (map fst consumed') = {}"
    for decode' :: "('p, 'e) decoder" and process' rt'
  proof -
    let ?s2 = "snd (run_before decode' rt' ?s')"
    from run_events_consumes [OF run_before_events [of decode' ?s' rt']] obtain c2 where
      c2: "m_eventBuffer ?s' = c2 @ m_eventBuffer ?s2"
      by blast
    have "set (map fst c2) \<subseteq> set (map fst (m_eventBuffer ?s1))"
      using c2 eb by (metis map_append set_append sup_ge1)
    with split(2) have "set (map fst c) \<inter> set (map fst c2) = {}" by blast
    moreover have "m_eventBuffer (run decode' process' rt' ?s') = m_eventBuffer ?s2"
      by (rule run_eventBuffer)
    ultimately show ?thesis using c2 by auto
  qed
  show ?thesis
    apply (rule exI [of _ c])
    using c eb split rel' next_run by simp
qed

theorem events_in_frame_order_and_once_witness:
  "map_ok (m_eventBuffer example_pending) \<and>
   m_eventBuffer (run raw_decode copy_through 500000 example_pending) = [(3000000, [0x80, 60, 0])] \<and>
   map (\<lambda>aip. map time_frames (seq_events (atomSeq aip)))
     (m_atomInputPorts (run_at_process raw_decode 500000 example_pending)) = [[0, 16]] \<and>
   (\<exists>consumed.
      m_eventBuffer example_pending =
        consumed @ m_eventBuffer (run raw_decode copy_through 500000 example_pending) \<and>
      map_ok (m_eventBuffer (run raw_decode copy_through 500000 example_pending)) \<and>
      set (map fst consumed) \<inter>
        set (map fst (m_eventBuffer (run raw_decode copy_through 500000 example_pending))) = {} \<and>
      list_all2
        (\<lambda>old new. \<exists>ys. appended_by ys old new \<and> sorted (map time_frames ys) \<and>
           subseq (map time_frames ys)
             (map (\<lambda>x. frame_offset 500000 (m_sampleRate example_pending) (fst x)) consumed))
        (m_atomInputPorts example_pending)
        (m_atomInputPorts (run_at_process raw_decode 500000 example_pending)) \<and>
      (\<forall>decode' process' rt'. \<exists>consumed'.
         m_eventBuffer (run raw_decode copy_through 500000 example_pending) =
           consumed' @ m_eventBuffer (run decode' process' rt'
                                      (run raw_decode copy_through 500000 example_pending)) \<and>
         set (map fst consumed) \<inter> set (map fst consumed') = {}))"
proof -
  have h: "map_ok (m_eventBuffer example_pending)"
    by (simp add: example_pending_def eval_run_before map_ok_def)
  have q: "m_eventBuffer (run raw_decode copy_through 500000 example_pending)
             = [(3000000, [0x80, 60, 0])]"
    by (simp add: example_pending_def run_eventBuffer eval_run_before)
  have p: "map (\<lambda>aip. map time_frames (seq_events (atomSeq aip)))
     (m_atomInputPorts (run_at_process raw_decode 500000 example_pending)) = [[0, 16]]"
    by (simp add: example_pending_def eval_run_before)
  show ?thesis
    using h q p events_in_frame_order_and_once [OF h, of raw_decode copy_through 500000]
    by blast
qed

text \<open>
  Claim C1. The claim has the loop stop at a frame offset equal to the block length; the
  code stops only above it (\<^verbatim>\<open>if (frameOffset > m_blockSize) break;\<close>, followed by the
  comment that the event is in this block). At 32000 frames a second and 64 frames a
  block, an event two milliseconds after the block start has frame offset 64: the loop
  takes it out of the map and appends it to the MIDI port with that offset, one frame
  past the last frame of the block.
\<close>

theorem boundary_event_delivered:
  "frame_offset 0 32000 2000000 = 64 \<and>
   m_blockSize (sendEvent 2000000 [0x90, 60, 100] (example_running 64 None)) = 64 \<and>
   \<not> run_returns_early raw_decode 0 (sendEvent 2000000 [0x90, 60, 100] (example_running 64 None)) \<and>
   m_atomInputPorts
     (run_at_process raw_decode 0 (sendEvent 2000000 [0x90, 60, 100] (example_running 64 None))) =
     [\<lparr>index = 2, isMidi = True,
       atomSeq = \<lparr>atom_size = 32, atom_type = 7,
                  seq_events = [\<lparr>time_frames = 64, body_size = 3, body_type = 9,
                                 body_data = [0x90, 60, 100]\<rparr>],
                  seq_behind = []\<rparr>\<rparr>] \<and>
   m_eventBuffer
     (run raw_decode copy_through 0 (sendEvent 2000000 [0x90, 60, 100] (example_running 64 None))) = []"
  by (simp add: run_eventBuffer eval_run_before)


text \<open>
  Claim C2. The claim has a decoding failure drop that one envelope and go on; the code
  unlocks and returns from \<^verbatim>\<open>run\<close>. With an undecodable envelope at time 1 and a
  note at time 2, both due in the block starting at 5, \<^verbatim>\<open>run\<close> keeps both in the map,
  appends nothing to the MIDI port and traces the decoding error only: the plugin's
  process callback is not invoked.
\<close>

theorem decode_failure_returns:
  "run_returns_early raw_decode 5
     (sendEvents [(1, []), (2, [0x90, 60, 100])] (example_running 64 None)) \<and>
   m_eventBuffer (run raw_decode copy_through 5
     (sendEvents [(1, []), (2, [0x90, 60, 100])] (example_running 64 None))) =
     [(1, []), (2, [0x90, 60, 100])] \<and>
   m_atomInputPorts (run raw_decode copy_through 5
     (sendEvents [(1, []), (2, [0x90, 60, 100])] (example_running 64 None))) =
     m_atomInputPorts (example_running 64 None) \<and>
   w_trace (run raw_decode copy_through 5
     (sendEvents [(1, []), (2, [0x90, 60, 100])] (example_running 64 None))) =
     w_trace (example_running 64 None) @ [Dbg_error_decoding]"
  by (simp add: run_unfold eval_run_before)


text \<open>
  When the loop leaves other than by the return of a decoding error, the envelope it
  stopped at lies beyond the block; so in a \<^verbatim>\<open>run\<close> call that reaches the process
  callback every envelope earlier than the block start has frame offset 0 and has been
  taken out of the map.
\<close>

lemma run_events_rest:
  "run_events decode sr n urid st q p aips tr = (False, q', p', aips', tr') \<Longrightarrow>
   q' = [] \<or> n < frame_offset st sr (fst (hd q'))"
proof (induction q arbitrary: p aips tr)
  case Nil
  then show ?case by simp
next
  case (Cons a q)
  obtain t e where a: "a = (t, e)" by (cases a)
  obtain bytes buf p1 where dec: "decode p e = (bytes, buf, p1)" by (cases "decode p e")
  from Cons.prems a
  have run: "run_events decode sr n urid st ((t, e) # q) p aips tr = (False, q', p', aips', tr')"
    by (simp only:)
  show ?case
  proof (cases "n < frame_offset st sr t")
    case True
    from run have "q' = (t, e) # q"
      by (simp only: run_events_beyond_block [OF True] prod.inject)
    with True show ?thesis by simp
  next
    case False
    then have le: "frame_offset st sr t \<le> n" by simp
    show ?thesis
    proof (cases "bytes \<le> 0")
      case True
      from run show ?thesis
        by (simp only: run_events_decode_error [where decode = decode and p = p and e = e, OF le dec True] prod.inject) simp
    next
      case False
      then have pos: "0 < bytes" by simp
      from run show ?thesis
        by (simp only: run_events_delivers [where decode = decode and p = p and e = e, OF le dec pos]) (rule Cons.IH)
    qed
  qed
qed

lemma late_envelopes_consumed:
  fixes s :: "('p, 'e) LV2PluginInstance"
  assumes ok: "map_ok (m_eventBuffer s)"
    and late: "(t, e) \<in> set (m_eventBuffer s)" "t < rt"
    and reached: "\<not> run_returns_early decode rt s"
  shows "frame_offset rt (m_sampleRate s) t = 0 \<and>
         (t, e) \<notin> set (m_eventBuffer (run decode process rt s))"
proof -
  let ?q' = "m_eventBuffer (snd (run_before decode rt s))"
  have ev: "run_events decode (m_sampleRate s) (m_blockSize s) (m_midiEventUrid s) rt
     (m_eventBuffer s) (m_midiParser s) (m_atomInputPorts s) (w_trace s)
   = (False, ?q', m_midiParser (snd (run_before decode rt s)),
      m_atomInputPorts (snd (run_before decode rt s)), w_trace (snd (run_before decode rt s)))"
    using run_before_events [of decode s rt] reached by (simp add: run_returns_early_def)
  from run_events_consumes [OF ev] obtain c where c: "m_eventBuffer s = c @ ?q'"
    by blast
  have "(t, e) \<notin> set ?q'"
  proof
    assume mem: "(t, e) \<in> set ?q'"
    then obtain a rest where q': "?q' = a # rest" by (cases ?q') auto
    from run_events_rest [OF ev] q'
    have beyond: "m_blockSize s < frame_offset rt (m_sampleRate s) (fst a)" by simp
    have "rt < fst a"
    proof (rule ccontr)
      assume "\<not> rt < fst a"
      then have "frame_offset rt (m_sampleRate s) (fst a) = 0"
        by (simp add: frame_offset_late)
      with beyond show False by simp
    qed
    moreover have "map_ok ?q'" using map_ok_append [of c ?q'] ok c by simp
    then have "fst a \<le> t"
      using mem q' by (cases a) (auto simp: map_ok_Cons)
    ultimately show False using late(2) by simp
  qed
  then show ?thesis
    using late(2) by (simp add: run_eventBuffer frame_offset_late)
qed

text \<open>
  Claim C6. An envelope earlier than the block start gets frame offset 0, but it is
  delivered in the block only if the loop reaches it and decodes it. Behind an undecodable
  envelope (the return of claim C2) the late envelope of time 20 stays in the map in the
  block starting at 1000, and nothing reaches the MIDI port.
\<close>

theorem late_event_not_delivered:
  "(20 :: RealTime) < 1000 \<and> frame_offset 1000 32000 20 = 0 \<and>
   m_eventBuffer (run raw_decode copy_through 1000
     (sendEvents [(10, []), (20, [0x80, 60, 0])] (example_running 64 None))) =
     [(10, []), (20, [0x80, 60, 0])] \<and>
   map (\<lambda>aip. seq_events (atomSeq aip))
     (m_atomInputPorts (run_at_process raw_decode 1000
        (sendEvents [(10, []), (20, [0x80, 60, 0])] (example_running 64 None)))) = [[]] \<and>
   w_trace (run raw_decode copy_through 1000
     (sendEvents [(10, []), (20, [0x80, 60, 0])] (example_running 64 None))) =
     w_trace (example_running 64 None) @ [Dbg_error_decoding]"
  by (simp add: run_unfold eval_run_before)


section \<open>An instance that failed to instantiate\<close>

text \<open>
  Whatever the plugin: when instantiation gives no instance, \<^verbatim>\<open>isOK()\<close> is false and
  the constructor has allocated buffers, tried to instantiate and asked for the worker
  interface, nothing more; \<^verbatim>\<open>silence\<close> then does nothing.
\<close>

lemma init_port_trace:
  "set (w_trace (init_port u i pd s)) \<subseteq> set (w_trace s) \<union> {New_atom_buffer ABUFSIZED}"
  "m_instance (init_port u i pd s) = m_instance s"
  by (cases "portType pd"; auto simp: init_port_def Let_def)+

lemma init_ports_trace:
  "set (w_trace (init_ports u i ports s)) \<subseteq> set (w_trace s) \<union> {New_atom_buffer ABUFSIZED}"
proof (induction ports arbitrary: i s)
  case Nil
  show ?case by auto
next
  case (Cons pd ports)
  show ?case
    using Cons.IH [of "Suc i" "init_port u i pd s"] init_port_trace(1) [of u i pd s]
    by auto
qed

lemma init_trace:
  "set (w_trace (init u c s)) \<subseteq> set (w_trace s) \<union> {New_atom_buffer ABUFSIZED}"
  using init_ports_trace [of u 0 "m_pluginData s" "s\<lparr>m_channelCount := c\<rparr>"]
  by (auto simp: init_def Let_def)

lemma failed_instantiation:
  "\<not> isOK (LV2PluginInstance_new pd instr pos sr bs icc squ mu parser None ds ext) \<and>
   set (w_trace (LV2PluginInstance_new pd instr pos sr bs icc squ mu parser None ds ext))
     \<subseteq> {New_atom_buffer ABUFSIZED, New_samples bs, Lilv_instantiate sr,
         Warn_failed_to_instantiate, Lilv_get_extension_data None}"
proof -
  let ?s0 = "\<lparr>m_instrument = instr, m_position = pos, m_instance = None,
                m_pluginData = pd, m_channelCount = 0, m_midiParser = parser,
                m_midiEventUrid = mu, m_blockSize = bs,
                m_sampleRate = sr, m_latencyPort = None, m_run = False,
                m_bypassed = False, m_distributeChannels = False,
                m_audioPortsIn = [], m_audioPortsOut = [],
                m_controlPortsIn = Map.empty, m_controlPortsOut = Map.empty,
                m_atomInputPorts = [], m_atomOutputPorts = [],
                m_inputBuffers = [], m_outputBuffers = [], m_eventBuffer = [],
                m_workerInterface = None, w_trace = [], w_responses = []\<rparr>"
  have "set (w_trace (init squ icc ?s0)) \<subseteq> {New_atom_buffer ABUFSIZED}"
    using init_trace [of squ icc ?s0] by simp
  then show ?thesis
    by (auto simp: LV2PluginInstance_new_def Let_def isOK_def instantiate_def)
qed

lemma silence_failed: "\<not> isOK s \<Longrightarrow> silence s = s"
  by (simp add: silence_def)

text \<open>
  Claim C4. With a null handle the constructor leaves \<^verbatim>\<open>isOK()\<close> false and issues neither
  \<^verbatim>\<open>connect_port\<close> nor \<^verbatim>\<open>activate\<close>. But \<^verbatim>\<open>getLatency\<close> does not ask \<^verbatim>\<open>isOK()\<close>, as
  the constructor, \<^verbatim>\<open>silence\<close> and \<^verbatim>\<open>setIdealChannelCount\<close> do: on the example plugin,
  which has a latency port, it invokes \<^verbatim>\<open>run\<close>, and \<^verbatim>\<open>lilv_instance_run\<close> is called with
  the null instance.
\<close>

theorem failed_instance_is_run:
  "\<not> isOK (example_instance 64 None None) \<and>
   w_trace (example_instance 64 None None) =
     [New_atom_buffer 100000, New_samples 64, New_samples 64, New_samples 64, New_samples 64,
      Lilv_instantiate 32000, Warn_failed_to_instantiate, Lilv_get_extension_data None] \<and>
   w_trace (snd (getLatency raw_decode copy_through (example_instance 64 None None))) =
     w_trace (example_instance 64 None None) @ [Lilv_run None 64]"
  by (simp add: isOK_def getLatency_def getAudioInputCount_def example_instance_None run_unfold
      run_before_def run_after_def run_worker_responses_def run_clear_atom_in_def
      run_atom_out_def run_distribute_def lilv_instance_run_def lv2_atom_sequence_clear_def
      distribute_outputs_0)


section \<open>Changing the channel count\<close>

lemma setPortValue_frame:
  "m_inputBuffers (setPortValue p v s) = m_inputBuffers s"
  "m_outputBuffers (setPortValue p v s) = m_outputBuffers s"
  "m_atomInputPorts (setPortValue p v s) = m_atomInputPorts s"
  "m_atomOutputPorts (setPortValue p v s) = m_atomOutputPorts s"
  "m_instance (setPortValue p v s) = m_instance s"
  "m_distributeChannels (setPortValue p v s) = m_distributeChannels s"
  "m_channelCount (setPortValue p v s) = m_channelCount s"
  "w_trace (setPortValue p v s) = w_trace s"
  by (simp_all add: setPortValue_def Let_def split: option.splits)

lemma restore_state_frame:
  "m_inputBuffers (restore_state ds s) = m_inputBuffers s"
  "m_outputBuffers (restore_state ds s) = m_outputBuffers s"
  "m_atomInputPorts (restore_state ds s) = m_atomInputPorts s"
  "m_atomOutputPorts (restore_state ds s) = m_atomOutputPorts s"
  "m_instance (restore_state ds s) = m_instance s"
  "m_distributeChannels (restore_state ds s) = m_distributeChannels s"
  "m_channelCount (restore_state ds s) = m_channelCount s"
  "w_trace (restore_state ds s) = w_trace s"
  by (induction ds s rule: restore_state.induct) (simp_all add: setPortValue_frame)

lemma connectPorts_frame:
  "m_inputBuffers (connectPorts ds s) = m_inputBuffers s"
  "m_outputBuffers (connectPorts ds s) = m_outputBuffers s"
  "m_atomInputPorts (connectPorts ds s) = m_atomInputPorts s"
  "m_atomOutputPorts (connectPorts ds s) = m_atomOutputPorts s"
  "m_instance (connectPorts ds s) = m_instance s"
  "m_distributeChannels (connectPorts ds s) = m_distributeChannels s"
  "m_channelCount (connectPorts ds s) = m_channelCount s"
  "w_trace (connectPorts ds s) = w_trace s @ connect_calls s @ [Lilv_state_restore]"
  by (simp_all add: connectPorts_def restore_state_frame)

text \<open>
  Claim C9, amended. A request for the current channel count changes nothing. A request
  for another count deactivates the instance if it is OK, frees the lilv instance and
  instantiates the plugin again; when that gives an instance, the ports are connected
  again and the instance is activated. The sample buffers and the atom buffers are the
  ones the instance had: nothing is released and nothing is allocated.
\<close>

theorem setIdealChannelCount_reinstantiates:
  "(channels = m_channelCount s \<longrightarrow> setIdealChannelCount h ds channels s = s) \<and>
   (channels \<noteq> m_channelCount s \<longrightarrow>
      w_trace (setIdealChannelCount h ds channels s) =
        w_trace s @ (if isOK s then [Lilv_deactivate (m_instance s)] else []) @
        [Lilv_free (m_instance s), Lilv_instantiate (m_sampleRate s)] @
        (if h = None then [Warn_failed_to_instantiate]
         else connect_calls s @ [Lilv_state_restore, Lilv_activate h]) \<and>
      m_instance (setIdealChannelCount h ds channels s) = h \<and>
      m_inputBuffers (setIdealChannelCount h ds channels s) = m_inputBuffers s \<and>
      m_outputBuffers (setIdealChannelCount h ds channels s) = m_outputBuffers s \<and>
      m_atomInputPorts (setIdealChannelCount h ds channels s) = m_atomInputPorts s \<and>
      m_atomOutputPorts (setIdealChannelCount h ds channels s) = m_atomOutputPorts s)"
proof (cases "isOK s"; cases h)
qed (simp_all add: setIdealChannelCount_def Let_def isOK_def instantiate_def cleanup_def
      deactivate_def activate_def connectPorts_frame connect_calls_def)


theorem setIdealChannelCount_reinstantiates_witness:
  "setIdealChannelCount (Some 2) [] 2 (example_running 64 None) = example_running 64 None \<and>
   w_trace (setIdealChannelCount (Some 2) [] 1 (example_running 64 None)) =
     w_trace (example_running 64 None) @
     [Lilv_deactivate (Some 1), Lilv_free (Some 1), Lilv_instantiate 32000,
      Lilv_connect_port 0, Lilv_connect_port 1, Lilv_connect_port 3, Lilv_connect_port 4,
      Lilv_connect_port 2, Lilv_state_restore, Lilv_activate (Some 2)] \<and>
   m_inputBuffers (setIdealChannelCount (Some 2) [] 1 (example_running 64 None)) =
     [replicate 64 0, replicate 64 0]"
  using setIdealChannelCount_reinstantiates [of 2 "example_running 64 None" "Some 2" "[]"]
    setIdealChannelCount_reinstantiates [of 1 "example_running 64 None" "Some 2" "[]"]
  by (simp add: example_running_eq example_instance_Some isOK_def connect_calls_def
      map_keys_def upt_5 example_ports_def)


text \<open>
  Against claim C9 as it is written (the old buffers are freed): on the running example
  a change from two channels to one leaves the buffers in place and traces no
  \<^verbatim>\<open>delete[]\<close>; the destructor is the code that releases them.
\<close>

theorem setIdealChannelCount_frees_no_buffer:
  "m_channelCount (example_running 64 None) \<noteq> 1 \<and>
   m_inputBuffers (setIdealChannelCount (Some 2) [] 1 (example_running 64 None)) =
     m_inputBuffers (example_running 64 None) \<and>
   m_outputBuffers (setIdealChannelCount (Some 2) [] 1 (example_running 64 None)) =
     m_outputBuffers (example_running 64 None) \<and>
   m_atomInputPorts (setIdealChannelCount (Some 2) [] 1 (example_running 64 None)) =
     m_atomInputPorts (example_running 64 None) \<and>
   Delete_samples \<notin> set (w_trace (setIdealChannelCount (Some 2) [] 1 (example_running 64 None))) \<and>
   Delete_atom_buffer \<notin> set (w_trace (setIdealChannelCount (Some 2) [] 1 (example_running 64 None))) \<and>
   Delete_samples \<in> set (w_trace (LV2PluginInstance_delete (example_running 64 None)))"
  by (simp add: setIdealChannelCount_def LV2PluginInstance_delete_def Let_def isOK_def
      instantiate_def cleanup_def deactivate_def activate_def connectPorts_frame
      connect_calls_def map_keys_def upt_5 example_running_eq example_instance_Some
      example_ports_def)


section \<open>Worker responses\<close>

lemma getResponse_None:
  "getResponse pp rs = (None, rs') \<Longrightarrow>
   rs' = rs \<and> filter (\<lambda>(k, job). k = pp) rs = []"
  by (induction rs arbitrary: rs') (auto split: if_splits prod.splits)

lemma getResponse_Some:
  "getResponse pp rs = (Some job, rs') \<Longrightarrow>
   filter (\<lambda>(k, job). k = pp) rs = (pp, job) # filter (\<lambda>(k, job). k = pp) rs' \<and>
   filter (\<lambda>(k, job). k \<noteq> pp) rs = filter (\<lambda>(k, job). k \<noteq> pp) rs'"
  by (induction rs arbitrary: rs') (auto split: if_splits prod.splits)

lemma worker_responses_closed:
  "worker_responses inst pp rs tr =
     (filter (\<lambda>(k, job). k \<noteq> pp) rs,
      tr @ map (\<lambda>(k, job). Work_response inst (job_size job) (job_data job))
             (filter (\<lambda>(k, job). k = pp) rs))"
proof (induction inst pp rs tr rule: worker_responses.induct)
  case (1 inst pp rs tr)
  obtain r rs' where g: "getResponse pp rs = (r, rs')" by (cases "getResponse pp rs")
  show ?case
  proof (cases r)
    case None
    with g getResponse_None [of pp rs rs'] have "rs' = rs" "filter (\<lambda>(k, job). k = pp) rs = []"
      by simp_all
    moreover from this have "filter (\<lambda>(k, job). k \<noteq> pp) rs = rs"
      by (auto simp: filter_empty_conv filter_id_conv)
    ultimately show ?thesis
      using g None by (subst worker_responses.simps) simp
  next
    case (Some job)
    from "1.IH" [OF g [symmetric] Some]
    have "worker_responses inst pp rs'
            (tr @ [Work_response inst (job_size job) (job_data job)]) =
      (filter (\<lambda>(k, job). k \<noteq> pp) rs',
       (tr @ [Work_response inst (job_size job) (job_data job)]) @
         map (\<lambda>(k, job). Work_response inst (job_size job) (job_data job))
           (filter (\<lambda>(k, job). k = pp) rs'))" .
    then show ?thesis
      using g Some getResponse_Some [of pp rs job rs']
      by (subst worker_responses.simps) simp
  qed
qed

lemma lilv_instance_run_trace:
  "w_trace (lilv_instance_run process s) = w_trace s @ [Lilv_run (m_instance s) (m_blockSize s)]"
  by (simp add: lilv_instance_run_def Let_def split: option.splits)

lemma run_worker_responses_effect:
  "w_responses (run_worker_responses s) =
     (case m_workerInterface s of
        None \<Rightarrow> w_responses s
      | Some wi \<Rightarrow>
          filter (\<lambda>(k, job). k \<noteq> \<lparr>instrument = m_instrument s, position = m_position s\<rparr>)
            (w_responses s))"
  "w_trace (run_worker_responses s) =
     w_trace s @
     (case m_workerInterface s of
        None \<Rightarrow> []
      | Some wi \<Rightarrow>
          map (\<lambda>(k, job). Work_response (m_instance s) (job_size job) (job_data job))
            (filter (\<lambda>(k, job). k = \<lparr>instrument = m_instrument s, position = m_position s\<rparr>)
               (w_responses s)) @
          (if has_end_run wi then [End_run (m_instance s)] else []))"
  by (simp_all add: run_worker_responses_def worker_responses_closed Let_def split: option.splits)

lemma run_atom_out_trace:
  "w_trace (run_atom_out s) =
     w_trace s @ snd (atom_out_data (m_midiEventUrid s) (m_atomOutputPorts s))"
  by (simp add: run_atom_out_def split: prod.splits)

text \<open>
  An atom output port as \<^verbatim>\<open>init\<close> makes it, which no plugin has written: its size is
  that of the whole buffer, so the walk meets the zeros of the allocation as 49999 events
  of type 0, and each of them is passed to \<^verbatim>\<open>updatePortValue\<close> unless 0 is the MIDI event
  type.
\<close>

lemma atom_sequence_events_new:
  "atom_sequence_events (atomSeq (new_atom_port squ i pd)) = replicate 49999 zero_event"
  by (simp add: atom_sequence_events_def new_atom_port_def lv2_atom_sequence_clear_def
      ABUFSIZED_def)

lemma atom_out_data_new:
  "urid \<noteq> 0 \<Longrightarrow>
   snd (atom_out_data urid [new_atom_port squ i pd]) =
     replicate 49999 (Update_port_value i zero_event)"
proof -
  assume u: "urid \<noteq> 0"
  have i: "index (new_atom_port squ i pd) = i"
    by (simp add: new_atom_port_def)
  have f: "filter (\<lambda>ev. body_type ev \<noteq> urid) (replicate 49999 zero_event) =
           replicate 49999 zero_event"
    using u by (simp add: zero_event_def)
  show ?thesis
    by (simp add: atom_sequence_events_new i f)
qed

lemma atom_sequence_events_clear:
  "atom_sequence_events (lv2_atom_sequence_clear sq) = []"
  by (cases "seq_events sq @ seq_behind sq")
     (simp_all add: atom_sequence_events_def lv2_atom_sequence_clear_def)

lemma atom_out_data_updates:
  "set (snd (atom_out_data urid aps)) \<subseteq> range (\<lambda>(i, ev). Update_port_value i ev)"
  by (induction aps) (auto simp: Let_def split: prod.splits)

lemma run_after_effect:
  "w_responses (run_after s) = w_responses (run_worker_responses s)"
  "w_trace (run_after s) =
     w_trace (run_worker_responses s) @
     snd (atom_out_data (m_midiEventUrid s) (m_atomOutputPorts s))"
  by (simp_all add: run_after_def run_distribute_frame run_atom_out_frame run_atom_out_trace
      run_clear_atom_in_frame run_worker_responses_frame)

lemma run_before_atom_out_Nil:
  "m_atomOutputPorts s = [] \<Longrightarrow> m_atomOutputPorts (snd (run_before decode rt s)) = []"
proof -
  obtain r q parser aips tr where ev:
    "run_events decode (m_sampleRate s) (m_blockSize s) (m_midiEventUrid s) rt
       (m_eventBuffer s) (m_midiParser s) (m_atomInputPorts s) (w_trace s)
     = (r, q, parser, aips, tr)"
    by (rule prod_cases5)
  show "m_atomOutputPorts s = [] \<Longrightarrow> ?thesis"
    unfolding run_before_def Let_def ev by (cases r) simp_all
qed

lemma lilv_instance_run_atom_out_Nil:
  "m_atomOutputPorts s = [] \<Longrightarrow> m_atomOutputPorts (lilv_instance_run process s) = []"
  by (simp add: lilv_instance_run_def Let_def split: option.splits)

text \<open>
  A block in which the plugin writes nothing to its atom output port: the size that
  \<^verbatim>\<open>run\<close> sets before the callback is the size the walk after it sees.
\<close>

lemma run_before_atom_out:
  "\<not> fst (run_before decode rt s) \<Longrightarrow>
   m_atomOutputPorts (snd (run_before decode rt s)) =
     map (\<lambda>ap. ap\<lparr>atomSeq := (atomSeq ap)\<lparr>atom_size := 8 * ABUFSIZED - 8\<rparr>\<rparr>)
       (m_atomOutputPorts s)"
proof -
  obtain r q parser aips tr where ev:
    "run_events decode (m_sampleRate s) (m_blockSize s) (m_midiEventUrid s) rt
       (m_eventBuffer s) (m_midiParser s) (m_atomInputPorts s) (w_trace s)
     = (r, q, parser, aips, tr)"
    by (rule prod_cases5)
  show "\<not> fst (run_before decode rt s) \<Longrightarrow> ?thesis"
    unfolding run_before_def Let_def ev by (cases r) simp_all
qed

lemma zip_atom_out_same:
  "map (\<lambda>(aop, sq). aop\<lparr>atomSeq := sq\<rparr>) (zip aps (map atomSeq aps)) = aps"
  by (induction aps) simp_all

lemma lilv_instance_run_atom_out_untouched:
  "io_atomOut (process (m_blockSize s) (plugin_view s)) = io_atomOut (plugin_view s) \<Longrightarrow>
   m_atomOutputPorts (lilv_instance_run process s) = m_atomOutputPorts s"
  by (simp add: lilv_instance_run_def Let_def plugin_view_def zip_atom_out_same
      split: option.splits)

lemma run_untouched_atom_output:
  fixes s :: "('p, 'e) LV2PluginInstance"
  assumes "\<not> run_returns_early decode rt s"
    and "m_atomOutputPorts s = [new_atom_port squ i pd]"
    and "m_midiEventUrid s \<noteq> 0"
    and "m_workerInterface s = None"
    and "\<And>n io. io_atomOut (process n io) = io_atomOut io"
  shows "w_trace (run decode process rt s) =
     w_trace (run_at_process decode rt s) @ [Lilv_run (m_instance s) (m_blockSize s)] @
     replicate 49999 (Update_port_value i zero_event)"
proof -
  have a: "m_atomOutputPorts (run_at_process decode rt s) = [new_atom_port squ i pd]"
    using assms(1,2)
    by (simp add: run_at_process_def run_returns_early_def run_before_atom_out
        new_atom_port_def)
  have b: "m_atomOutputPorts (lilv_instance_run process (run_at_process decode rt s)) =
           [new_atom_port squ i pd]"
    using a assms(5) by (simp add: lilv_instance_run_atom_out_untouched)
  have c: "snd (atom_out_data (m_midiEventUrid s) [new_atom_port squ i pd]) =
           replicate 49999 (Update_port_value i zero_event)"
    using assms(3) by (rule atom_out_data_new)
  show ?thesis
    using assms(1,4) b c
    by (simp add: run_unfold run_returns_early_def run_at_process_def run_after_effect
      run_worker_responses_effect lilv_instance_run_frame lilv_instance_run_trace
      run_before_frame del: atom_out_data.simps)
qed



text \<open>
  The worker responses of a \<^verbatim>\<open>run\<close> call that reaches the plugin's process callback. The
  calls that follow the callback are these: with a worker interface, \<^verbatim>\<open>work_response\<close>
  once for every completed job queued for this instance's instrument and position, in
  queue order, then \<^verbatim>\<open>end_run\<close> if the plugin has that hook, each with \<^verbatim>\<open>m_instance\<close> as
  the handle; those jobs are taken out of the queue and the jobs of other instances stay.
  Without a worker interface no response is forwarded, no hook is called and the queue is
  left as it is. What follows in the trace are the port updates of the atom outputs only.
\<close>

theorem worker_responses_after_callback:
  fixes s :: "('p, 'e) LV2PluginInstance"
  assumes "\<not> run_returns_early decode rt s"
  shows
    "w_responses (run decode process rt s) =
       (case m_workerInterface s of
          None \<Rightarrow> w_responses s
        | Some wi \<Rightarrow>
            filter (\<lambda>(k, job). k \<noteq> \<lparr>instrument = m_instrument s, position = m_position s\<rparr>)
              (w_responses s)) \<and>
     w_trace (run decode process rt s) =
       w_trace (run_at_process decode rt s) @
       [Lilv_run (m_instance s) (m_blockSize s)] @
       (case m_workerInterface s of
          None \<Rightarrow> []
        | Some wi \<Rightarrow>
            map (\<lambda>(k, job). Work_response (m_instance s) (job_size job) (job_data job))
              (filter (\<lambda>(k, job). k = \<lparr>instrument = m_instrument s, position = m_position s\<rparr>)
                 (w_responses s)) @
            (if has_end_run wi then [End_run (m_instance s)] else [])) @
       snd (atom_out_data (m_midiEventUrid s)
              (m_atomOutputPorts (lilv_instance_run process (run_at_process decode rt s)))) \<and>
     set (snd (atom_out_data (m_midiEventUrid s)
              (m_atomOutputPorts (lilv_instance_run process (run_at_process decode rt s)))))
       \<subseteq> range (\<lambda>(i, ev). Update_port_value i ev)"
  using assms
  by (cases "m_workerInterface s")
     (simp_all add: run_unfold run_returns_early_def run_at_process_def run_after_effect
      run_worker_responses_effect lilv_instance_run_frame lilv_instance_run_trace
      run_before_frame atom_out_data_updates)



theorem worker_responses_after_callback_witness:
  "\<not> run_returns_early raw_decode 2000000 example_worker \<and>
   w_responses (run raw_decode copy_through 2000000 example_worker) =
     [(\<lparr>instrument = 2, position = 0\<rparr>, \<lparr>job_size = 1, job_data = [8]\<rparr>)] \<and>
   w_trace (run raw_decode copy_through 2000000 example_worker) =
     w_trace example_worker @
     [Lilv_run (Some 1) 64, Work_response (Some 1) 1 [7], Work_response (Some 1) 2 [9, 10],
      End_run (Some 1)]"
proof -
  have h: "\<not> run_returns_early raw_decode 2000000 example_worker"
    by (simp add: example_worker_def eval_run_before)
  have t: "w_trace (run_at_process raw_decode 2000000 example_worker) = w_trace example_worker"
    by (simp add: example_worker_def eval_run_before)
  show ?thesis
    using h t worker_responses_after_callback [OF h, of copy_through]
    by (simp add: example_worker_def example_running_eq example_instance_Some
        run_at_process_def run_before_atom_out_Nil lilv_instance_run_atom_out_Nil)
qed

text \<open>
  Claim C8. On every \<^verbatim>\<open>run\<close> call, after the process callback, the completed jobs queued
  for the instance are forwarded to the plugin's \<^verbatim>\<open>work_response\<close> and \<^verbatim>\<open>end_run\<close> is
  called if the plugin has it. The code does so only in a call that gets as far as the
  callback. Here the instance has a worker interface with the \<^verbatim>\<open>end_run\<close> hook, two
  completed jobs of its own are queued, and an envelope that cannot be decoded is due:
  \<^verbatim>\<open>run\<close> returns from the event loop, the queue of completed jobs is as it was, and the
  only call of the block is the debug message; the plugin is not run, no response is
  forwarded and \<^verbatim>\<open>end_run\<close> is not called. (\<^verbatim>\<open>getResponse\<close> is modelled from the spec as a
  plain removal from a list.)
\<close>

theorem worker_responses_not_forwarded:
  "m_workerInterface (sendEvent 0 [] example_worker) = Some \<lparr>has_end_run = True\<rparr> \<and>
   m_instance (sendEvent 0 [] example_worker) = Some 1 \<and>
   m_eventBuffer (sendEvent 0 [] example_worker) = [(0, [])] \<and>
   run_returns_early raw_decode 0 (sendEvent 0 [] example_worker) \<and>
   w_responses (run raw_decode copy_through 0 (sendEvent 0 [] example_worker)) =
     [(\<lparr>instrument = 1, position = 0\<rparr>, \<lparr>job_size = 1, job_data = [7]\<rparr>),
      (\<lparr>instrument = 2, position = 0\<rparr>, \<lparr>job_size = 1, job_data = [8]\<rparr>),
      (\<lparr>instrument = 1, position = 0\<rparr>, \<lparr>job_size = 2, job_data = [9, 10]\<rparr>)] \<and>
   w_trace (run raw_decode copy_through 0 (sendEvent 0 [] example_worker)) =
     w_trace (sendEvent 0 [] example_worker) @ [Dbg_error_decoding] \<and>
   m_eventBuffer (run raw_decode copy_through 0 (sendEvent 0 [] example_worker)) = [(0, [])]"
  by (simp add: run_unfold example_worker_def eval_run_before)

section \<open>Channel adaptation\<close>

lemma init_port_audio:
  "m_audioPortsIn (init_port u i pd s) =
     m_audioPortsIn s @ (if portType pd = LV2AUDIO \<and> isInput pd then [int i] else [])"
  "m_audioPortsOut (init_port u i pd s) =
     m_audioPortsOut s @ (if portType pd = LV2AUDIO \<and> \<not> isInput pd then [int i] else [])"
  "m_channelCount (init_port u i pd s) = m_channelCount s"
  by (cases "portType pd"; simp add: init_port_def Let_def)+

lemma init_ports_audio:
  "length (m_audioPortsIn (init_ports u i ports s)) =
     length (m_audioPortsIn s) +
     length (filter (\<lambda>p. portType p = LV2AUDIO \<and> isInput p) ports)"
  "length (m_audioPortsOut (init_ports u i ports s)) =
     length (m_audioPortsOut s) +
     length (filter (\<lambda>p. portType p = LV2AUDIO \<and> \<not> isInput p) ports)"
  "m_channelCount (init_ports u i ports s) = m_channelCount s"
  by (induction ports arbitrary: i s) (simp_all add: init_port_audio)

lemma init_distributeChannels:
  "m_distributeChannels (init u c s) \<longleftrightarrow>
     length (m_audioPortsIn s) +
       length (filter (\<lambda>p. portType p = LV2AUDIO \<and> isInput p) (m_pluginData s)) = 1 \<and>
     length (m_audioPortsOut s) +
       length (filter (\<lambda>p. portType p = LV2AUDIO \<and> \<not> isInput p) (m_pluginData s)) = 1 \<and>
     c = 2"
  by (simp add: init_def Let_def init_ports_audio)

lemma instantiate_distributeChannels:
  "m_distributeChannels (instantiate h sr s) = m_distributeChannels s"
  by (simp add: instantiate_def Let_def)

lemma new_distributeChannels:
  "m_distributeChannels
     (LV2PluginInstance_new pd instr pos sr bs icc squ mu parser h ds ext) \<longleftrightarrow>
     length (filter (\<lambda>p. portType p = LV2AUDIO \<and> isInput p) pd) = 1 \<and>
     length (filter (\<lambda>p. portType p = LV2AUDIO \<and> \<not> isInput p) pd) = 1 \<and>
     icc = 2"
  by (simp add: LV2PluginInstance_new_def Let_def activate_def connectPorts_frame
      instantiate_distributeChannels init_distributeChannels)

text \<open>
  The channel adaptation of a \<^verbatim>\<open>run\<close> call that reaches the process callback. The
  constructor flags the instance exactly when the plugin has one audio input port, one
  audio output port and the channel count is two. A flagged instance hands the callback
  the input buffers after the mixing loop, which replaces each sample of the first buffer
  by the mean of the two channels, and leaves the output buffers after the loop that
  copies the first output buffer to the second; an instance that is not flagged hands
  over its input buffers as they are and keeps the output buffers as the callback left
  them. In the example inputs 1, 3 and 3, 5 are mixed to 2, 4, and the plugin's output
  2, 4 ends in both output channels.
\<close>

theorem channel_adaptation_at_callback:
  fixes s :: "('p, 'e) LV2PluginInstance" and parser :: 'p
  assumes "\<not> run_returns_early decode rt s"
  shows
    "(m_distributeChannels
        (LV2PluginInstance_new pd instr pos sr bs icc squ mu parser h ds ext
           :: ('p, 'e) LV2PluginInstance) \<longleftrightarrow>
        length (filter (\<lambda>p. portType p = LV2AUDIO \<and> isInput p) pd) = 1 \<and>
        length (filter (\<lambda>p. portType p = LV2AUDIO \<and> \<not> isInput p) pd) = 1 \<and>
        icc = 2) \<and>
     m_inputBuffers (run_at_process decode rt s) =
       (if m_distributeChannels s
        then mix_inputs 0 (m_blockSize s) (m_inputBuffers s) else m_inputBuffers s) \<and>
     m_outputBuffers (run decode process rt s) =
       (if m_distributeChannels s
        then distribute_outputs 0 (m_blockSize s)
               (m_outputBuffers (lilv_instance_run process (run_at_process decode rt s)))
        else m_outputBuffers (lilv_instance_run process (run_at_process decode rt s))) \<and>
     (length L = n \<and> length R = n \<longrightarrow>
        mix_inputs 0 n [L, R] = [map (\<lambda>(l, r). (l + r) / 2) (zip L R), R]) \<and>
     (length out0 = n \<and> length out1 = n \<longrightarrow>
        distribute_outputs 0 n [out0, out1] = [out0, out0])"
  using assms
  by (simp add: new_distributeChannels run_returns_early_def run_at_process_def
      run_before_inputs run_outputs mix_inputs_0 distribute_outputs_0)

theorem channel_adaptation_at_callback_witness:
  "\<not> run_returns_early raw_decode 0 example_stereo_input \<and>
   m_distributeChannels example_stereo_input \<and>
   m_inputBuffers example_stereo_input = [[1, 3], [3, 5]] \<and>
   io_audioIn (plugin_view (run_at_process raw_decode 0 example_stereo_input)) = [[2, 4]] \<and>
   io_audioOut (copy_through 2 (plugin_view (run_at_process raw_decode 0 example_stereo_input)))
     = [[2, 4]] \<and>
   m_outputBuffers (run raw_decode copy_through 0 example_stereo_input) = [[2, 4], [2, 4]]"
proof -
  have h: "\<not> run_returns_early raw_decode 0 example_stereo_input"
    by (simp add: example_stereo_input_def eval_run_before)
  have d: "m_distributeChannels example_stereo_input"
    "m_inputBuffers example_stereo_input = [[1, 3], [3, 5]]"
    "m_blockSize example_stereo_input = 2"
    "m_audioPortsIn example_stereo_input = [0, - 1]"
    "m_audioPortsOut example_stereo_input = [1, - 1]"
    "m_outputBuffers example_stereo_input = [replicate 2 0, replicate 2 0]"
    "m_instance example_stereo_input = Some 1"
    by (simp_all add: example_stereo_input_def example_running_eq example_instance_Some)
  show ?thesis
    using h d
      channel_adaptation_at_callback [OF h, where pd = example_ports and instr = 1 and pos = 0
        and sr = 32000 and bs = 2 and icc = 2 and squ = 7 and mu = 9 and parser = "()"
        and h = "Some 1" and ds = "[]" and ext = None and process = copy_through
        and L = "[1, 3]" and R = "[3, 5]" and n = 2 and ?out0.0 = "[2, 4]"
        and ?out1.0 = "replicate 2 0"]
    by (simp add: plugin_view_def connected_def copy_through_def lilv_instance_run_def
        run_at_process_def run_before_frame)
qed

text \<open>
  Claim C5. A flagged instance (one audio input port, one audio output port, channel
  count two) mixes its two input channels before the plugin's process callback and
  copies the plugin's output channel to both host channels after it. The code does so
  only in a \<^verbatim>\<open>run\<close> call that gets as far as the callback. Here the flagged instance holds
  the inputs 1, 3 and 3, 5 and an envelope that cannot be decoded is due: \<^verbatim>\<open>run\<close> returns
  from the event loop, the first input buffer is not mixed to 2, 4, the plugin is not run
  and the output channels keep what they held; the only call of the block is the debug
  message. Without that envelope the same instance mixes and copies, as shown above.
\<close>

theorem channel_adaptation_skipped:
  "m_distributeChannels (sendEvent 0 [] example_stereo_input) \<and>
   m_blockSize (sendEvent 0 [] example_stereo_input) = 2 \<and>
   m_inputBuffers (sendEvent 0 [] example_stereo_input) = [[1, 3], [3, 5]] \<and>
   m_outputBuffers (sendEvent 0 [] example_stereo_input) = [[0, 0], [0, 0]] \<and>
   m_eventBuffer (sendEvent 0 [] example_stereo_input) = [(0, [])] \<and>
   run_returns_early raw_decode 0 (sendEvent 0 [] example_stereo_input) \<and>
   m_inputBuffers (run raw_decode copy_through 0 (sendEvent 0 [] example_stereo_input)) =
     [[1, 3], [3, 5]] \<and>
   m_outputBuffers (run raw_decode copy_through 0 (sendEvent 0 [] example_stereo_input)) =
     [[0, 0], [0, 0]] \<and>
   w_trace (run raw_decode copy_through 0 (sendEvent 0 [] example_stereo_input)) =
     w_trace (sendEvent 0 [] example_stereo_input) @ [Dbg_error_decoding]"
  by (simp add: run_unfold example_stereo_input_def eval_run_before numeral_2_eq_2)

end
